theory Spec2Isabelle
  imports Complex_Main "HOL-Library.Log_Nat"
begin

section \<open>The PC104 standoff plate (src/cad/pc104\_stand.py)\<close>

text \<open>
  The script is a geometry recipe over two configuration records. For the geometry,
  Python floats are read as real numbers (decimal literals are exact rationals), Python
  ints as \<open>int\<close>, the dictionary of holes as an association list in insertion order
  (the loop of the recipe iterates over it in that order), and the solid that the recipe
  accumulates as a tree of constructive-solid-geometry operations whose meaning is the
  set of points it contains. Where a property depends on how the floats round
  (\<open>stack_headers_center_coord\<close> as a function of \<open>pin_count_y\<close>), the arithmetic of
  the code is modelled as it is: IEEE 754 binary64 with rounding to nearest, ties to even.
\<close>

subsection \<open>Configuration records\<close>

type_synonym vec2 = "real \<times> real"
type_synonym vec3 = "real \<times> real \<times> real"

datatype error = AssertionError string | OverflowError | ZeroDivisionError

record PC104Spec =
  top_left_pin_coord :: vec2
  pin_count_x :: int
  pin_count_y :: int
  pin_pitch :: real
  box_width_x :: real
  box_height_y :: real
  box_top_left_coord :: vec2

record StandSpec =
  base_plate_thickness :: real
  plate_plate_corner_radius :: real
  standoff_total_height :: real
  standoff_id :: real
  standoff_od_east :: real
  standoff_od_west :: real

text \<open>\<open>__post_init__\<close> of either dataclass has a docstring for a body: it checks nothing.\<close>

definition PC104Spec_post_init :: "PC104Spec \<Rightarrow> error + unit" where
  "PC104Spec_post_init self = Inr ()"

definition StandSpec_post_init :: "StandSpec \<Rightarrow> error + unit" where
  "StandSpec_post_init self = Inr ()"

text \<open>The generated \<open>__init__\<close>: store the fields, then run \<open>__post_init__\<close>.\<close>

definition new_PC104Spec ::
  "vec2 \<Rightarrow> int \<Rightarrow> int \<Rightarrow> real \<Rightarrow> real \<Rightarrow> real \<Rightarrow> vec2 \<Rightarrow> error + PC104Spec" where
  "new_PC104Spec pin0 nx ny pitch w h corner =
     (let self = \<lparr> top_left_pin_coord = pin0, pin_count_x = nx, pin_count_y = ny,
                   pin_pitch = pitch, box_width_x = w, box_height_y = h,
                   box_top_left_coord = corner \<rparr>
      in case PC104Spec_post_init self of Inl e \<Rightarrow> Inl e | Inr u \<Rightarrow> Inr self)"

definition new_StandSpec ::
  "real \<Rightarrow> real \<Rightarrow> real \<Rightarrow> real \<Rightarrow> real \<Rightarrow> real \<Rightarrow> error + StandSpec" where
  "new_StandSpec t cr h d_in d_east d_west =
     (let self = \<lparr> base_plate_thickness = t, plate_plate_corner_radius = cr,
                   standoff_total_height = h, standoff_id = d_in,
                   standoff_od_east = d_east, standoff_od_west = d_west \<rparr>
      in case StandSpec_post_init self of Inl e \<Rightarrow> Inl e | Inr u \<Rightarrow> Inr self)"

text \<open>The field defaults of the two dataclasses.\<close>

definition PC104Spec_default :: PC104Spec where
  "PC104Spec_default =
     \<lparr> top_left_pin_coord = (0, 0), pin_count_x = 4, pin_count_y = 26,
       pin_pitch = 2.54, box_width_x = 94.54, box_height_y = 88.1,
       box_top_left_coord = (-4.4, 11.63) \<rparr>"

definition StandSpec_default :: StandSpec where
  "StandSpec_default =
     \<lparr> base_plate_thickness = 2.0, plate_plate_corner_radius = 3.0,
       standoff_total_height = 9.5, standoff_id = 3.5,
       standoff_od_east = 6.5, standoff_od_west = 5.8 \<rparr>"

subsection \<open>Derived views of PC104Spec\<close>

definition hole_coord_list :: "PC104Spec \<Rightarrow> (string \<times> vec2) list" where
  "hole_coord_list self =
     [(''NW'', (0, 5.08)),
      (''NE'', (85.73, 7.62)),
      (''SW'', (0, -68.58)),
      (''SE'', (85.73, -72.39))]"

text \<open>
  Lines 45--52 in exact arithmetic, for the geometry; the same lines in the doubles of
  the code are \<open>stack_headers_center_coord_f64\<close> below.
\<close>

definition stack_headers_center_coord :: "PC104Spec \<Rightarrow> vec2" where
  "stack_headers_center_coord self =
     (fst (top_left_pin_coord self)
        + (real_of_int (pin_count_x self - 1) * pin_pitch self / 2),
      snd (top_left_pin_coord self)
        - (real_of_int (pin_count_y self - 1) * pin_pitch self / 2))"

subsection \<open>Double-precision floats\<close>

text \<open>
  A Python float is an IEEE 754 binary64 value: a finite double, an infinity or a NaN.
  A finite double is the real number it stands for; the two zeros are one value, as
  \<open>==\<close> has them. Every operation computes the exact result and rounds it to the
  nearest double, ties to the even significand (\<open>f64_round\<close>): the significand has 53
  bits, the unit in the last place is at least \<open>2 powi -1074\<close>, and a result that rounds
  to \<open>2 powi 1024\<close> or beyond is an infinity.
\<close>

datatype f64 = F64 real | PInf | NInf | NaN

text \<open>The integer nearest to \<open>x\<close>, the even one of the two when \<open>x\<close> lies halfway.\<close>

definition round_half_even :: "real \<Rightarrow> int" where
  "round_half_even x =
     (let f = \<lfloor>x\<rfloor>; d = x - of_int f
      in if d < 1 / 2 then f
         else if 1 / 2 < d then f + 1
         else if even f then f else f + 1)"

text \<open>
  The exponent of the leading bit of a positive number:
  \<open>2 powi ilog2 x \<le> x < 2 powi (ilog2 x + 1)\<close>.
\<close>

definition ilog2 :: "real \<Rightarrow> int" where
  "ilog2 x = (if 1 \<le> x then bitlen \<lfloor>x\<rfloor> - 1 else - bitlen (\<lceil>1 / x\<rceil> - 1))"

definition f64_round :: "real \<Rightarrow> f64" where
  "f64_round x =
     (if x = 0 then F64 0
      else
        (let e = max (ilog2 \<bar>x\<bar> - 52) (- 1074);
             y = of_int (round_half_even (x / 2 powi e)) * 2 powi e
         in if 2 powi 1024 \<le> \<bar>y\<bar> then (if 0 < x then PInf else NInf) else F64 y))"

fun f64_add :: "f64 \<Rightarrow> f64 \<Rightarrow> f64" where
  "f64_add (F64 a) (F64 b) = f64_round (a + b)"
| "f64_add NaN y = NaN"
| "f64_add x NaN = NaN"
| "f64_add PInf NInf = NaN"
| "f64_add NInf PInf = NaN"
| "f64_add PInf y = PInf"
| "f64_add NInf y = NInf"
| "f64_add x PInf = PInf"
| "f64_add x NInf = NInf"

fun f64_neg :: "f64 \<Rightarrow> f64" where
  "f64_neg (F64 a) = F64 (- a)"
| "f64_neg PInf = NInf"
| "f64_neg NInf = PInf"
| "f64_neg NaN = NaN"

fun f64_sub :: "f64 \<Rightarrow> f64 \<Rightarrow> f64" where
  "f64_sub (F64 a) (F64 b) = f64_round (a - b)"
| "f64_sub x y = f64_add x (f64_neg y)"

fun f64_mul :: "f64 \<Rightarrow> f64 \<Rightarrow> f64" where
  "f64_mul (F64 a) (F64 b) = f64_round (a * b)"
| "f64_mul NaN y = NaN"
| "f64_mul x NaN = NaN"
| "f64_mul (F64 a) PInf = (if a = 0 then NaN else if 0 < a then PInf else NInf)"
| "f64_mul (F64 a) NInf = (if a = 0 then NaN else if 0 < a then NInf else PInf)"
| "f64_mul PInf (F64 b) = (if b = 0 then NaN else if 0 < b then PInf else NInf)"
| "f64_mul NInf (F64 b) = (if b = 0 then NaN else if 0 < b then NInf else PInf)"
| "f64_mul PInf PInf = PInf"
| "f64_mul NInf NInf = PInf"
| "f64_mul PInf NInf = NInf"
| "f64_mul NInf PInf = NInf"

text \<open>Python raises ZeroDivisionError when the divisor is zero, whatever the dividend.\<close>

fun f64_div :: "f64 \<Rightarrow> f64 \<Rightarrow> error + f64" where
  "f64_div x (F64 b) =
     (if b = 0 then Inl ZeroDivisionError
      else Inr (case x of
                  F64 a \<Rightarrow> f64_round (a / b)
                | PInf \<Rightarrow> (if 0 < b then PInf else NInf)
                | NInf \<Rightarrow> (if 0 < b then NInf else PInf)
                | NaN \<Rightarrow> NaN))"
| "f64_div (F64 a) PInf = Inr (F64 0)"
| "f64_div (F64 a) NInf = Inr (F64 0)"
| "f64_div x y = Inr NaN"

text \<open>
  The conversion of a Python int in mixed arithmetic (\<open>int * float\<close>): correctly
  rounded, and an OverflowError for an int too large for a double.
\<close>

definition f64_of_int :: "int \<Rightarrow> error + f64" where
  "f64_of_int n =
     (case f64_round (of_int n) of F64 v \<Rightarrow> Inr (F64 v) | _ \<Rightarrow> Inl OverflowError)"

text \<open>
  Lines 45--52 in the arithmetic of the code. A field of the record that is a float is
  the double nearest to the real number the record holds (as the parser reads the
  literal \<open>2.54\<close>); \<open>pin_span_half_f64\<close> is the subexpression
  \<open>(pin_count - 1) * self.pin_pitch / 2\<close>, evaluated from left to right.
\<close>

definition pin_span_half_f64 :: "int \<Rightarrow> f64 \<Rightarrow> error + f64" where
  "pin_span_half_f64 pin_count pitch =
     (case f64_of_int (pin_count - 1) of
        Inl e \<Rightarrow> Inl e
      | Inr n \<Rightarrow> f64_div (f64_mul n pitch) (F64 2))"

definition stack_headers_center_coord_f64 :: "PC104Spec \<Rightarrow> error + (f64 \<times> f64)" where
  "stack_headers_center_coord_f64 self =
     (let tx = f64_round (fst (top_left_pin_coord self));
          ty = f64_round (snd (top_left_pin_coord self));
          pitch = f64_round (pin_pitch self)
      in case pin_span_half_f64 (pin_count_x self) pitch of
           Inl e \<Rightarrow> Inl e
         | Inr hx \<Rightarrow>
             (case pin_span_half_f64 (pin_count_y self) pitch of
                Inl e \<Rightarrow> Inl e
              | Inr hy \<Rightarrow> Inr (f64_add tx hx, f64_sub ty hy)))"

subsection \<open>Solids of the geometry kernel\<close>

text \<open>
  The kernel (build123d) is outside the repository; the recipe uses its boxes, cylinders,
  translation, the fillet of the vertical edges and the two boolean operations. A shape
  is created at the origin, placed on each axis by its alignment: \<open>AlignMIN\<close> puts the
  lowest coordinate of the shape at 0, \<open>AlignMAX\<close> the highest, \<open>AlignCENTER\<close> the middle.
\<close>

datatype Align = AlignMIN | AlignCENTER | AlignMAX

type_synonym Align3 = "Align \<times> Align \<times> Align"

datatype Shape =
    Box real real real Align3
  | Cylinder real real Align3

datatype Part =
    Empty
  | Solid Shape
  | Translate Part vec3
  | FilletZ real Part
  | Add Part Part
  | Sub Part Part

fun align_lo :: "Align \<Rightarrow> real \<Rightarrow> real" where
  "align_lo AlignMIN len = 0"
| "align_lo AlignCENTER len = - len / 2"
| "align_lo AlignMAX len = - len"

text \<open>The extent of a shape on the three axes: lowest corner and size.\<close>

fun shape_size :: "Shape \<Rightarrow> vec3" where
  "shape_size (Box len wid hgt al) = (len, wid, hgt)"
| "shape_size (Cylinder radius hgt al) = (2 * radius, 2 * radius, hgt)"

fun shape_align :: "Shape \<Rightarrow> Align3" where
  "shape_align (Box len wid hgt al) = al"
| "shape_align (Cylinder radius hgt al) = al"

definition shape_lo :: "Shape \<Rightarrow> vec3" where
  "shape_lo s =
     (case (shape_align s, shape_size s) of
        ((ax, ay, az), (sx, sy, sz)) \<Rightarrow> (align_lo ax sx, align_lo ay sy, align_lo az sz))"

definition shape_hi :: "Shape \<Rightarrow> vec3" where
  "shape_hi s =
     (case (shape_lo s, shape_size s) of
        ((lx, ly, lz), (sx, sy, sz)) \<Rightarrow> (lx + sx, ly + sy, lz + sz))"

text \<open>A disc of radius \<open>r\<close> around \<open>(cx, cy)\<close>: the cross-section of a cylinder.\<close>

definition disc :: "real \<Rightarrow> real \<Rightarrow> real \<Rightarrow> real \<Rightarrow> real \<Rightarrow> bool" where
  "disc cx cy r x y = ((x - cx)\<^sup>2 + (y - cy)\<^sup>2 \<le> r\<^sup>2)"

text \<open>The same disc without its rim: the points strictly within the radius.\<close>

definition open_disc :: "real \<Rightarrow> real \<Rightarrow> real \<Rightarrow> real \<Rightarrow> real \<Rightarrow> bool" where
  "open_disc cx cy r x y = ((x - cx)\<^sup>2 + (y - cy)\<^sup>2 < r\<^sup>2)"

definition between :: "real \<Rightarrow> real \<Rightarrow> real \<Rightarrow> bool" where
  "between lo hi v = (lo \<le> v \<and> v \<le> hi)"

fun inside_shape :: "Shape \<Rightarrow> vec3 \<Rightarrow> bool" where
  "inside_shape (Box len wid hgt al) (x, y, z) =
     (case (shape_lo (Box len wid hgt al), shape_hi (Box len wid hgt al)) of
        ((lx, ly, lz), (hx, hy, hz)) \<Rightarrow>
          between lx hx x \<and> between ly hy y \<and> between lz hz z)"
| "inside_shape (Cylinder radius hgt al) (x, y, z) =
     (case (shape_lo (Cylinder radius hgt al), shape_hi (Cylinder radius hgt al)) of
        ((lx, ly, lz), (hx, hy, hz)) \<Rightarrow>
          disc (lx + radius) (ly + radius) radius x y \<and> between lz hz z)"

text \<open>
  The axis-aligned bounding box of what a part can occupy (a subtraction and a fillet of
  convex edges only remove material, so the box of their operand bounds them).
\<close>

fun bbox :: "Part \<Rightarrow> (vec3 \<times> vec3) option" where
  "bbox Empty = None"
| "bbox (Solid s) = Some (shape_lo s, shape_hi s)"
| "bbox (Translate p (dx, dy, dz)) =
     (case bbox p of
        None \<Rightarrow> None
      | Some ((lx, ly, lz), (hx, hy, hz)) \<Rightarrow>
          Some ((lx + dx, ly + dy, lz + dz), (hx + dx, hy + dy, hz + dz)))"
| "bbox (FilletZ r p) = bbox p"
| "bbox (Add a b) =
     (case (bbox a, bbox b) of
        (None, bb) \<Rightarrow> bb
      | (Some ba, None) \<Rightarrow> Some ba
      | (Some ((lx, ly, lz), (hx, hy, hz)), Some ((lx', ly', lz'), (hx', hy', hz'))) \<Rightarrow>
          Some ((min lx lx', min ly ly', min lz lz'), (max hx hx', max hy hy', max hz hz')))"
| "bbox (Sub a b) = bbox a"

text \<open>
  A rectangle \<open>[x0, x1] \<times> [y0, y1]\<close> whose four corners are rounded with radius \<open>r\<close>:
  a point in one of the four \<open>r \<times> r\<close> corner squares must lie within \<open>r\<close> of that
  corner's arc centre.
\<close>

definition rounded_rect ::
  "real \<Rightarrow> real \<Rightarrow> real \<Rightarrow> real \<Rightarrow> real \<Rightarrow> real \<Rightarrow> real \<Rightarrow> bool" where
  "rounded_rect r x0 y0 x1 y1 x y =
     (let ex = max (x0 + r - x) (x - (x1 - r));
          ey = max (y0 + r - y) (y - (y1 - r))
      in ex \<le> 0 \<or> ey \<le> 0 \<or> ex\<^sup>2 + ey\<^sup>2 \<le> r\<^sup>2)"

text \<open>
  The points of a part. \<open>FilletZ r p\<close> is the fillet of radius \<open>r\<close> of all edges of \<open>p\<close>
  that are parallel to the Z axis; the recipe applies it to the plate, an axis-aligned
  box, whose vertical edges are its four corners, and for such a part the fillet is the
  rounding of the corners of its outline.

  The primitives are closed sets and \<open>Sub a b\<close> is the plain difference, so \<open>inside\<close>
  leaves out the faces that a cut leaves behind (the points of \<open>a\<close> on the boundary of
  \<open>b\<close>), which the solid of the kernel, a closed set, contains. \<open>inside\<close> is the part
  up to these faces: a point it contains is a point of the solid, and a point it leaves
  out is outside the solid unless it lies on the boundary of a subtracted primitive.
\<close>

fun inside :: "Part \<Rightarrow> vec3 \<Rightarrow> bool" where
  "inside Empty pt = False"
| "inside (Solid s) pt = inside_shape s pt"
| "inside (Translate p (dx, dy, dz)) (x, y, z) = inside p (x - dx, y - dy, z - dz)"
| "inside (FilletZ r p) (x, y, z) =
     (inside p (x, y, z) \<and>
      (case bbox p of
         None \<Rightarrow> True
       | Some ((lx, ly, lz), (hx, hy, hz)) \<Rightarrow> rounded_rect r lx ly hx hy x y))"
| "inside (Add a b) pt = (inside a pt \<or> inside b pt)"
| "inside (Sub a b) pt = (inside a pt \<and> \<not> inside b pt)"

text \<open>
  The operations an accumulated part was built by, oldest first: \<open>(True, b)\<close> for
  \<open>p += b\<close> and \<open>(False, b)\<close> for \<open>p -= b\<close>.
\<close>

fun operations :: "Part \<Rightarrow> (bool \<times> Part) list" where
  "operations (Add a b) = operations a @ [(True, b)]"
| "operations (Sub a b) = operations a @ [(False, b)]"
| "operations p = []"

definition added :: "Part \<Rightarrow> Part list" where
  "added p = map snd (filter fst (operations p))"

definition removed :: "Part \<Rightarrow> Part list" where
  "removed p = map snd (filter (\<lambda>e. \<not> fst e) (operations p))"

subsection \<open>make\_pc104\_standoff\<close>

definition CCM :: Align3 where
  "CCM = (AlignCENTER, AlignCENTER, AlignMIN)"

text \<open>Lines 83--93: the outline of the board, before the fillet.\<close>

definition base_plate :: "PC104Spec \<Rightarrow> StandSpec \<Rightarrow> Part" where
  "base_plate pc104 part_spec =
     Add Empty
       (Translate
          (Solid (Box (box_width_x pc104) (box_height_y pc104)
                    (base_plate_thickness part_spec) (AlignMIN, AlignMAX, AlignMIN)))
          (fst (box_top_left_coord pc104), snd (box_top_left_coord pc104), 0))"

text \<open>Lines 101--116: the standoff added at a hole.\<close>

definition standoff_cylinder :: "StandSpec \<Rightarrow> string \<Rightarrow> vec2 \<Rightarrow> Part" where
  "standoff_cylinder part_spec hole_name hole_coord =
     Translate
       (Solid (Cylinder
                 ((if hole_name \<in> {''NE'', ''SE''} then standoff_od_east part_spec
                   else standoff_od_west part_spec) / 2)
                 (standoff_total_height part_spec) CCM))
       (fst hole_coord, snd hole_coord, 0)"

text \<open>Lines 119--129: the cylinder removed at a hole.\<close>

definition hole_cutter :: "StandSpec \<Rightarrow> string \<Rightarrow> vec2 \<Rightarrow> Part" where
  "hole_cutter part_spec hole_name hole_coord =
     Translate
       (Solid (Cylinder (standoff_id part_spec / 2) 20 CCM))
       (fst hole_coord, snd hole_coord,
        (if hole_name \<noteq> ''NW'' then base_plate_thickness part_spec else - 10))"

text \<open>Lines 100--129: one turn of the loop over the holes.\<close>

definition hole_step :: "StandSpec \<Rightarrow> string \<times> vec2 \<Rightarrow> Part \<Rightarrow> Part" where
  "hole_step part_spec item p =
     Sub (Add p (standoff_cylinder part_spec (fst item) (snd item)))
         (hole_cutter part_spec (fst item) (snd item))"

text \<open>Lines 132--142: the box removed where the stack header goes.\<close>

definition header_cutter :: "PC104Spec \<Rightarrow> Part" where
  "header_cutter pc104 =
     Translate
       (Solid (Box (real_of_int (pin_count_x pc104) * pin_pitch pc104 + 8)
                 (real_of_int (pin_count_y pc104) * pin_pitch pc104 + 3)
                 20 CCM))
       (fst (stack_headers_center_coord pc104), snd (stack_headers_center_coord pc104), 0)"

definition make_pc104_standoff :: "PC104Spec \<Rightarrow> StandSpec \<Rightarrow> Part" where
  "make_pc104_standoff pc104 part_spec =
     (let p = Empty;
          p = Add p (FilletZ (plate_plate_corner_radius part_spec)
                       (base_plate pc104 part_spec));
          p = foldl (\<lambda>p item. hole_step part_spec item p) p (hole_coord_list pc104);
          p = Sub p (header_cutter pc104)
      in p)"

subsection \<open>The driver\<close>

text \<open>
  What the driver does is a trace of its calls into the logger, the file system and the
  exporters. The manifold test and the type test of the \<open>assert\<close> are answered by the
  kernel, so they are parameters.
\<close>

datatype event =
    LogInfo string
  | LogWarning string
  | Mkdir string
  | ExportStl string string
  | ExportStep string string

text \<open>Line 159: the folder of the exported files, beside the folder of the script.\<close>

definition export_folder :: string where
  "export_folder = ''build''"

text \<open>Lines 162--170: the loop over the parts; an assertion that fails ends the run.\<close>

fun export_parts ::
  "('p \<Rightarrow> bool) \<Rightarrow> ('p \<Rightarrow> bool) \<Rightarrow> (string \<times> 'p) list \<Rightarrow> event list \<times> error option" where
  "export_parts is_expected_type is_manifold [] = ([], None)"
| "export_parts is_expected_type is_manifold ((name, part) # rest) =
     (if \<not> is_expected_type part then ([], Some (AssertionError name))
      else
        (let warn = (if \<not> is_manifold part then [LogWarning name] else []);
             out = [ExportStl name (export_folder @ ''/'' @ name @ ''.stl''),
                    ExportStep name (export_folder @ ''/'' @ name @ ''.step'')];
             (evs, err) = export_parts is_expected_type is_manifold rest
         in (warn @ out @ evs, err)))"

text \<open>Lines 148--155: the part the driver builds, from the defaults of both records.\<close>

abbreviation default_part :: Part where
  "default_part \<equiv> make_pc104_standoff PC104Spec_default StandSpec_default"

definition driver :: "(Part \<Rightarrow> bool) \<Rightarrow> (Part \<Rightarrow> bool) \<Rightarrow> event list \<times> error option" where
  "driver is_expected_type is_manifold =
     (let parts = [(''pc104_standoff'', default_part)];
          (evs, err) = export_parts is_expected_type is_manifold parts
      in ([LogInfo ''Showing CAD model(s)'', Mkdir export_folder] @ evs, err))"

definition is_export :: "event \<Rightarrow> bool" where
  "is_export e = (case e of ExportStl n f \<Rightarrow> True | ExportStep n f \<Rightarrow> True | _ \<Rightarrow> False)"

subsection \<open>Vocabulary of the properties\<close>

text \<open>
  The footprint of the plate, as a region of space: the rectangle of size
  \<open>box_width_x\<close> by \<open>box_height_y\<close> whose top left corner is \<open>box_top_left_coord\<close>, from
  \<open>z = 0\<close> up to \<open>standoff_total_height\<close>.
\<close>

definition in_footprint :: "PC104Spec \<Rightarrow> StandSpec \<Rightarrow> vec3 \<Rightarrow> bool" where
  "in_footprint pc104 part_spec pt =
     (case pt of (x, y, z) \<Rightarrow>
        between (fst (box_top_left_coord pc104))
                (fst (box_top_left_coord pc104) + box_width_x pc104) x
      \<and> between (snd (box_top_left_coord pc104) - box_height_y pc104)
                (snd (box_top_left_coord pc104)) y
      \<and> between 0 (standoff_total_height part_spec) z)"

text \<open>The extent of a part on the Z axis, read off its bounding box.\<close>

definition z_range :: "Part \<Rightarrow> (real \<times> real) option" where
  "z_range p = map_option (\<lambda>(lo, hi). (snd (snd lo), snd (snd hi))) (bbox p)"

section \<open>Lemmas about the solids\<close>

subsection \<open>Discs and the primitives of the recipe\<close>

lemma disc_bounds:
  assumes "disc cx cy r x y" and "0 \<le> r"
  shows "cx - r \<le> x \<and> x \<le> cx + r \<and> cy - r \<le> y \<and> y \<le> cy + r"
proof -
  have sx: "(x - cx)\<^sup>2 \<le> r\<^sup>2" and sy: "(y - cy)\<^sup>2 \<le> r\<^sup>2"
    using assms(1) zero_le_power2 [of "x - cx"] zero_le_power2 [of "y - cy"]
    unfolding disc_def by linarith+
  have "\<bar>x - cx\<bar> \<le> r" "\<bar>y - cy\<bar> \<le> r"
    using sx sy assms(2) by (simp_all add: power2_le_iff_abs_le)
  then show ?thesis by linarith
qed

lemma disc_centre: "disc cx cy r cx cy"
  by (simp add: disc_def)

lemma open_disc_disc: "open_disc cx cy r x y \<Longrightarrow> disc cx cy r x y"
  by (simp add: open_disc_def disc_def)

lemma disc_mono:
  assumes "disc cx cy r x y" and "\<bar>r\<bar> \<le> \<bar>r'\<bar>"
  shows "disc cx cy r' x y"
proof -
  have "r\<^sup>2 \<le> r'\<^sup>2" using assms(2) by (simp add: abs_le_square_iff)
  then show ?thesis using assms(1) unfolding disc_def by linarith
qed

lemma inside_cylinder:
  "inside (Translate (Solid (Cylinder r h CCM)) (cx, cy, cz)) (x, y, z)
     = (disc cx cy r x y \<and> cz \<le> z \<and> z \<le> cz + h)"
  by (auto simp: CCM_def shape_lo_def shape_hi_def between_def disc_def)

lemma inside_box_centred:
  "inside (Translate (Solid (Box w l h CCM)) (cx, cy, cz)) (x, y, z)
     = (\<bar>x - cx\<bar> \<le> w / 2 \<and> \<bar>y - cy\<bar> \<le> l / 2 \<and> cz \<le> z \<and> z \<le> cz + h)"
proof -
  have ax: "\<bar>x - cx\<bar> \<le> w / 2 \<longleftrightarrow> - w / 2 \<le> x - cx \<and> x - cx \<le> - w / 2 + w"
    by linarith
  have ay: "\<bar>y - cy\<bar> \<le> l / 2 \<longleftrightarrow> - l / 2 \<le> y - cy \<and> y - cy \<le> - l / 2 + l"
    by linarith
  have az: "cz \<le> z \<and> z \<le> cz + h \<longleftrightarrow> 0 \<le> z - cz \<and> z - cz \<le> 0 + h"
    by auto
  show ?thesis
    unfolding ax ay az
    by (simp add: CCM_def shape_lo_def shape_hi_def between_def)
qed

lemma inside_base_plate:
  "inside (base_plate pc104 part_spec) (x, y, z)
     = (fst (box_top_left_coord pc104) \<le> x
        \<and> x \<le> fst (box_top_left_coord pc104) + box_width_x pc104
        \<and> snd (box_top_left_coord pc104) - box_height_y pc104 \<le> y
        \<and> y \<le> snd (box_top_left_coord pc104)
        \<and> 0 \<le> z \<and> z \<le> base_plate_thickness part_spec)"
  by (auto simp: base_plate_def shape_lo_def shape_hi_def between_def)


lemma inside_standoff_cylinder:
  "inside (standoff_cylinder part_spec hole_name (cx, cy)) (x, y, z)
     = (disc cx cy ((if hole_name = ''NE'' \<or> hole_name = ''SE''
                     then standoff_od_east part_spec else standoff_od_west part_spec) / 2) x y
        \<and> 0 \<le> z \<and> z \<le> standoff_total_height part_spec)"
  by (simp add: standoff_cylinder_def inside_cylinder del: inside.simps)

lemma inside_hole_cutter:
  "inside (hole_cutter part_spec hole_name (cx, cy)) (x, y, z)
     = (disc cx cy (standoff_id part_spec / 2) x y
        \<and> (if hole_name = ''NW'' then - 10 \<le> z \<and> z \<le> 10
           else base_plate_thickness part_spec \<le> z \<and> z \<le> base_plate_thickness part_spec + 20))"
  by (simp add: hole_cutter_def inside_cylinder del: inside.simps)

lemma inside_header_cutter:
  "inside (header_cutter pc104) (x, y, z)
     = (\<bar>x - fst (stack_headers_center_coord pc104)\<bar>
          \<le> (real_of_int (pin_count_x pc104) * pin_pitch pc104 + 8) / 2
        \<and> \<bar>y - snd (stack_headers_center_coord pc104)\<bar>
          \<le> (real_of_int (pin_count_y pc104) * pin_pitch pc104 + 3) / 2
        \<and> 0 \<le> z \<and> z \<le> 20)"
  by (simp add: header_cutter_def inside_box_centred del: inside.simps)

lemma make_pc104_standoff_unfold:
  "make_pc104_standoff pc104 part_spec =
     Sub (Sub (Add (Sub (Add (Sub (Add (Sub (Add
       (Add Empty (FilletZ (plate_plate_corner_radius part_spec) (base_plate pc104 part_spec)))
       (standoff_cylinder part_spec ''NW'' (0, 5.08)))
       (hole_cutter part_spec ''NW'' (0, 5.08)))
       (standoff_cylinder part_spec ''NE'' (85.73, 7.62)))
       (hole_cutter part_spec ''NE'' (85.73, 7.62)))
       (standoff_cylinder part_spec ''SW'' (0, -68.58)))
       (hole_cutter part_spec ''SW'' (0, -68.58)))
       (standoff_cylinder part_spec ''SE'' (85.73, -72.39)))
       (hole_cutter part_spec ''SE'' (85.73, -72.39)))
       (header_cutter pc104)"
  by (simp add: make_pc104_standoff_def hole_coord_list_def hole_step_def)

subsection \<open>The recipe, unrolled\<close>

lemma standoff_cylinder_bounds:
  assumes "inside (standoff_cylinder part_spec hole_name (cx, cy)) (x, y, z)"
    and "r = (if hole_name = ''NE'' \<or> hole_name = ''SE''
              then standoff_od_east part_spec else standoff_od_west part_spec) / 2"
    and "0 \<le> r"
  shows "cx - r \<le> x \<and> x \<le> cx + r \<and> cy - r \<le> y \<and> y \<le> cy + r
         \<and> 0 \<le> z \<and> z \<le> standoff_total_height part_spec"
proof -
  have "disc cx cy r x y" and z: "0 \<le> z \<and> z \<le> standoff_total_height part_spec"
    using assms(1) unfolding inside_standoff_cylinder assms(2) by blast+
  from disc_bounds [OF this(1) assms(3)] z show ?thesis by blast
qed

lemma added_make_pc104_standoff:
  "added (make_pc104_standoff pc104 part_spec) =
     [FilletZ (plate_plate_corner_radius part_spec) (base_plate pc104 part_spec),
      standoff_cylinder part_spec ''NW'' (0, 5.08),
      standoff_cylinder part_spec ''NE'' (85.73, 7.62),
      standoff_cylinder part_spec ''SW'' (0, -68.58),
      standoff_cylinder part_spec ''SE'' (85.73, -72.39)]"
  by (simp add: make_pc104_standoff_unfold added_def)

lemma removed_make_pc104_standoff:
  "removed (make_pc104_standoff pc104 part_spec) =
     [hole_cutter part_spec ''NW'' (0, 5.08),
      hole_cutter part_spec ''NE'' (85.73, 7.62),
      hole_cutter part_spec ''SW'' (0, -68.58),
      hole_cutter part_spec ''SE'' (85.73, -72.39),
      header_cutter pc104]"
  by (simp add: make_pc104_standoff_unfold removed_def)

lemma inside_make_pc104_standoff:
  "inside (make_pc104_standoff pc104 part_spec) pt =
     (((((((((inside (FilletZ (plate_plate_corner_radius part_spec) (base_plate pc104 part_spec)) pt
       \<or> inside (standoff_cylinder part_spec ''NW'' (0, 5.08)) pt)
       \<and> \<not> inside (hole_cutter part_spec ''NW'' (0, 5.08)) pt)
       \<or> inside (standoff_cylinder part_spec ''NE'' (85.73, 7.62)) pt)
       \<and> \<not> inside (hole_cutter part_spec ''NE'' (85.73, 7.62)) pt)
       \<or> inside (standoff_cylinder part_spec ''SW'' (0, -68.58)) pt)
       \<and> \<not> inside (hole_cutter part_spec ''SW'' (0, -68.58)) pt)
       \<or> inside (standoff_cylinder part_spec ''SE'' (85.73, -72.39)) pt)
       \<and> \<not> inside (hole_cutter part_spec ''SE'' (85.73, -72.39)) pt)
       \<and> \<not> inside (header_cutter pc104) pt)"
  by (simp add: make_pc104_standoff_unfold)

lemma inside_within_added:
  "inside (make_pc104_standoff pc104 part_spec) pt
     \<Longrightarrow> \<exists>b \<in> set (added (make_pc104_standoff pc104 part_spec)). inside b pt"
  unfolding inside_make_pc104_standoff added_make_pc104_standoff
  by auto

lemma inside_FilletZ_base_plate:
  "inside (FilletZ r (base_plate pc104 part_spec)) (x, y, z)
     \<Longrightarrow> inside (base_plate pc104 part_spec) (x, y, z)"
  by simp

lemma added_default_in_footprint:
  assumes "b \<in> set (added (make_pc104_standoff PC104Spec_default StandSpec_default))"
    and "inside b (x, y, z)"
  shows "in_footprint PC104Spec_default StandSpec_default (x, y, z)"
proof -
  let ?ps = StandSpec_default
  consider (plate) "inside (FilletZ (plate_plate_corner_radius ?ps) (base_plate PC104Spec_default ?ps)) (x, y, z)"
    | (nw) "inside (standoff_cylinder ?ps ''NW'' (0, 5.08)) (x, y, z)"
    | (ne) "inside (standoff_cylinder ?ps ''NE'' (85.73, 7.62)) (x, y, z)"
    | (sw) "inside (standoff_cylinder ?ps ''SW'' (0, -68.58)) (x, y, z)"
    | (se) "inside (standoff_cylinder ?ps ''SE'' (85.73, -72.39)) (x, y, z)"
    using assms unfolding added_make_pc104_standoff by auto
  then show ?thesis
  proof cases
    case plate
    then have "inside (base_plate PC104Spec_default ?ps) (x, y, z)"
      by (rule inside_FilletZ_base_plate)
    then show ?thesis
      by (simp add: inside_base_plate in_footprint_def between_def
            PC104Spec_default_def StandSpec_default_def del: inside.simps)
  next
    case nw
    from standoff_cylinder_bounds [OF this, of "2.9"] show ?thesis
      by (simp add: in_footprint_def between_def PC104Spec_default_def StandSpec_default_def)
  next
    case ne
    from standoff_cylinder_bounds [OF this, of "3.25"] show ?thesis
      by (simp add: in_footprint_def between_def PC104Spec_default_def StandSpec_default_def)
  next
    case sw
    from standoff_cylinder_bounds [OF this, of "2.9"] show ?thesis
      by (simp add: in_footprint_def between_def PC104Spec_default_def StandSpec_default_def)
  next
    case se
    from standoff_cylinder_bounds [OF this, of "3.25"] show ?thesis
      by (simp add: in_footprint_def between_def PC104Spec_default_def StandSpec_default_def)
  qed
qed

subsection \<open>The part built from the defaults\<close>

lemma hole_cutter_bounds:
  assumes "inside (hole_cutter part_spec hole_name (cx, cy)) (x, y, z)"
    and "r = standoff_id part_spec / 2" and "0 \<le> r"
  shows "cx - r \<le> x \<and> x \<le> cx + r \<and> cy - r \<le> y \<and> y \<le> cy + r"
proof -
  have "disc cx cy r x y"
    using assms(1) unfolding inside_hole_cutter assms(2) by blast
  from disc_bounds [OF this assms(3)] show ?thesis .
qed

lemma plate_z:
  "inside (FilletZ r (base_plate pc104 part_spec)) (x, y, z)
     \<Longrightarrow> 0 \<le> z \<and> z \<le> base_plate_thickness part_spec"
  using inside_base_plate [of pc104 part_spec x y z] by simp

lemma standoff_z:
  "inside (standoff_cylinder part_spec hole_name (cx, cy)) (x, y, z)
     \<Longrightarrow> 0 \<le> z \<and> z \<le> standoff_total_height part_spec"
  unfolding inside_standoff_cylinder by blast

lemmas default_defs = PC104Spec_default_def StandSpec_default_def

lemma default_plate_z:
  assumes "inside (FilletZ (plate_plate_corner_radius StandSpec_default)
                   (base_plate PC104Spec_default StandSpec_default)) (x, y, z)"
  shows "0 \<le> z \<and> z \<le> 2"
  using plate_z [OF assms] by (simp add: StandSpec_default_def)

lemma default_standoff_z:
  assumes "inside (standoff_cylinder StandSpec_default hole_name (cx, cy)) (x, y, z)"
  shows "0 \<le> z \<and> z \<le> 9.5"
  using standoff_z [OF assms] by (simp add: StandSpec_default_def)

lemma default_standoff_xy:
  assumes "inside (standoff_cylinder StandSpec_default hole_name (cx, cy)) (x, y, z)"
  shows "cx - 3.25 \<le> x \<and> x \<le> cx + 3.25 \<and> cy - 3.25 \<le> y \<and> y \<le> cy + 3.25"
proof -
  define r where "r = (if hole_name = ''NE'' \<or> hole_name = ''SE''
              then standoff_od_east StandSpec_default else standoff_od_west StandSpec_default) / 2"
  have r: "0 \<le> r \<and> r \<le> 3.25" by (simp add: r_def StandSpec_default_def)
  then have "0 \<le> r" by simp
  from standoff_cylinder_bounds [OF assms r_def this] r show ?thesis by linarith
qed

lemma default_cutter_xy:
  assumes "inside (hole_cutter StandSpec_default hole_name (cx, cy)) (x, y, z)"
  shows "cx - 1.75 \<le> x \<and> x \<le> cx + 1.75 \<and> cy - 1.75 \<le> y \<and> y \<le> cy + 1.75"
  using hole_cutter_bounds [OF assms, of "1.75"] by (simp add: StandSpec_default_def)

lemma default_cutter_iff:
  "inside (hole_cutter StandSpec_default hole_name (cx, cy)) (x, y, z)
     = (disc cx cy 1.75 x y
        \<and> (if hole_name = ''NW'' then - 10 \<le> z \<and> z \<le> 10 else 2 \<le> z \<and> z \<le> 22))"
  unfolding inside_hole_cutter by (simp add: StandSpec_default_def)

lemma default_standoff_bore:
  assumes "disc cx cy 1.75 x y"
  shows "inside (standoff_cylinder StandSpec_default hole_name (cx, cy)) (x, y, z)
           = (0 \<le> z \<and> z \<le> 9.5)"
proof -
  have "disc cx cy (5.8 / 2) x y" "disc cx cy (6.5 / 2) x y"
    using assms by (rule disc_mono, simp)+
  then show ?thesis
    unfolding inside_standoff_cylinder by (simp add: StandSpec_default_def)
qed

lemma default_header_xy:
  assumes "inside (header_cutter PC104Spec_default) (x, y, z)"
  shows "- 5.27 \<le> x \<and> x \<le> 12.89 \<and> - 66.27 \<le> y \<and> y \<le> 2.77"
proof -
  have "\<bar>x - 3.81\<bar> \<le> 9.08 \<and> \<bar>y + 31.75\<bar> \<le> 34.52"
    using assms unfolding inside_header_cutter
    by (simp add: PC104Spec_default_def stack_headers_center_coord_def)
  then show ?thesis by linarith
qed

lemma nw_hole_through:
  assumes "open_disc 0 5.08 1.75 x y"
  shows "\<not> inside default_part (x, y, z)"
proof -
  let ?ps = StandSpec_default and ?pt = "(x, y, z)"
  have d: "disc 0 5.08 1.75 x y" using assms by (rule open_disc_disc)
  from disc_bounds [OF d] have xy: "-1.75 \<le> x \<and> x \<le> 1.75 \<and> 3.33 \<le> y \<and> y \<le> 6.83"
    by simp
  have k1: "inside (hole_cutter ?ps ''NW'' (0, 5.08)) ?pt \<longleftrightarrow> - 10 \<le> z \<and> z \<le> 10"
    using d unfolding default_cutter_iff by simp
  note p = default_plate_z [of x y z]
  note c1 = default_standoff_z [of "''NW''" 0 "5.08" x y z]
  have c2: "\<not> inside (standoff_cylinder ?ps ''NE'' (85.73, 7.62)) ?pt"
    using default_standoff_xy [of "''NE''" "85.73" "7.62" x y z] xy by auto
  have c3: "\<not> inside (standoff_cylinder ?ps ''SW'' (0, -68.58)) ?pt"
    using default_standoff_xy [of "''SW''" 0 "-68.58" x y z] xy by auto
  have c4: "\<not> inside (standoff_cylinder ?ps ''SE'' (85.73, -72.39)) ?pt"
    using default_standoff_xy [of "''SE''" "85.73" "-72.39" x y z] xy by auto
  show ?thesis
    unfolding inside_make_pc104_standoff using k1 p c1 c2 c3 c4 by linarith
qed


lemma blind_hole:
  assumes o: "open_disc cx cy 1.75 x y"
    and h: "(hole_name, (cx, cy)) \<in> {(''NE'', (85.73, 7.62)), (''SW'', (0, -68.58)), (''SE'', (85.73, -72.39))}"
  shows "(0 \<le> z \<and> z < 2 \<longrightarrow> inside default_part (x, y, z))
         \<and> (z < 0 \<or> 2 < z \<longrightarrow> \<not> inside default_part (x, y, z))"
proof -
  let ?ps = StandSpec_default and ?pt = "(x, y, z)"
  have d: "disc cx cy 1.75 x y" using o by (rule open_disc_disc)
  from disc_bounds [OF d] have xy: "cx - 1.75 \<le> x \<and> x \<le> cx + 1.75 \<and> cy - 1.75 \<le> y \<and> y \<le> cy + 1.75"
    by simp
  note p = default_plate_z [of x y z]
  note cz = default_standoff_z [of _ _ _ x y z]
  note cxy = default_standoff_xy [of _ _ _ x y z]
  note kxy = default_cutter_xy [of _ _ _ x y z]
  note hxy = default_header_xy [of x y z]
  note own = default_standoff_bore [OF d, of _ z]
  have k: "\<And>n. inside (hole_cutter ?ps n (cx, cy)) ?pt
             = (if n = ''NW'' then - 10 \<le> z \<and> z \<le> 10 else 2 \<le> z \<and> z \<le> 22)"
    using d unfolding default_cutter_iff by simp
  from h consider (ne) "hole_name = ''NE''" "cx = 85.73" "cy = 7.62"
    | (sw) "hole_name = ''SW''" "cx = 0" "cy = -68.58"
    | (se) "hole_name = ''SE''" "cx = 85.73" "cy = -72.39"
    by auto
  then show ?thesis
  proof cases
    case ne
    have c1: "\<not> inside (standoff_cylinder ?ps ''NW'' (0, 5.08)) ?pt"
      using cxy [of "''NW''" 0 "5.08"] xy ne by auto
    have k1: "\<not> inside (hole_cutter ?ps ''NW'' (0, 5.08)) ?pt"
      using kxy [of "''NW''" 0 "5.08"] xy ne by auto
    have c3: "\<not> inside (standoff_cylinder ?ps ''SW'' (0, -68.58)) ?pt"
      using cxy [of "''SW''" 0 "-68.58"] xy ne by auto
    have k3: "\<not> inside (hole_cutter ?ps ''SW'' (0, -68.58)) ?pt"
      using kxy [of "''SW''" 0 "-68.58"] xy ne by auto
    have c4: "\<not> inside (standoff_cylinder ?ps ''SE'' (85.73, -72.39)) ?pt"
      using cxy [of "''SE''" "85.73" "-72.39"] xy ne by auto
    have k4: "\<not> inside (hole_cutter ?ps ''SE'' (85.73, -72.39)) ?pt"
      using kxy [of "''SE''" "85.73" "-72.39"] xy ne by auto
    have hd: "\<not> inside (header_cutter PC104Spec_default) ?pt"
      using hxy xy ne by auto
    have c2: "inside (standoff_cylinder ?ps ''NE'' (85.73, 7.62)) ?pt = (0 \<le> z \<and> z \<le> 9.5)"
      using own [of "''NE''"] ne by simp
    have k2: "inside (hole_cutter ?ps ''NE'' (85.73, 7.62)) ?pt = (2 \<le> z \<and> z \<le> 22)"
      using k [of "''NE''"] ne by simp
    show ?thesis
      unfolding inside_make_pc104_standoff using p c1 k1 c2 k2 c3 k3 c4 k4 hd by linarith
  next
    case sw
    have c1: "\<not> inside (standoff_cylinder ?ps ''NW'' (0, 5.08)) ?pt"
      using cxy [of "''NW''" 0 "5.08"] xy sw by auto
    have k1: "\<not> inside (hole_cutter ?ps ''NW'' (0, 5.08)) ?pt"
      using kxy [of "''NW''" 0 "5.08"] xy sw by auto
    have c2: "\<not> inside (standoff_cylinder ?ps ''NE'' (85.73, 7.62)) ?pt"
      using cxy [of "''NE''" "85.73" "7.62"] xy sw by auto
    have k2: "\<not> inside (hole_cutter ?ps ''NE'' (85.73, 7.62)) ?pt"
      using kxy [of "''NE''" "85.73" "7.62"] xy sw by auto
    have c4: "\<not> inside (standoff_cylinder ?ps ''SE'' (85.73, -72.39)) ?pt"
      using cxy [of "''SE''" "85.73" "-72.39"] xy sw by auto
    have k4: "\<not> inside (hole_cutter ?ps ''SE'' (85.73, -72.39)) ?pt"
      using kxy [of "''SE''" "85.73" "-72.39"] xy sw by auto
    have hd: "\<not> inside (header_cutter PC104Spec_default) ?pt"
      using hxy xy sw by auto
    have c3: "inside (standoff_cylinder ?ps ''SW'' (0, -68.58)) ?pt = (0 \<le> z \<and> z \<le> 9.5)"
      using own [of "''SW''"] sw by simp
    have k3: "inside (hole_cutter ?ps ''SW'' (0, -68.58)) ?pt = (2 \<le> z \<and> z \<le> 22)"
      using k [of "''SW''"] sw by simp
    show ?thesis
      unfolding inside_make_pc104_standoff using p c1 k1 c2 k2 c3 k3 c4 k4 hd by linarith
  next
    case se
    have c1: "\<not> inside (standoff_cylinder ?ps ''NW'' (0, 5.08)) ?pt"
      using cxy [of "''NW''" 0 "5.08"] xy se by auto
    have k1: "\<not> inside (hole_cutter ?ps ''NW'' (0, 5.08)) ?pt"
      using kxy [of "''NW''" 0 "5.08"] xy se by auto
    have c2: "\<not> inside (standoff_cylinder ?ps ''NE'' (85.73, 7.62)) ?pt"
      using cxy [of "''NE''" "85.73" "7.62"] xy se by auto
    have k2: "\<not> inside (hole_cutter ?ps ''NE'' (85.73, 7.62)) ?pt"
      using kxy [of "''NE''" "85.73" "7.62"] xy se by auto
    have c3: "\<not> inside (standoff_cylinder ?ps ''SW'' (0, -68.58)) ?pt"
      using cxy [of "''SW''" 0 "-68.58"] xy se by auto
    have k3: "\<not> inside (hole_cutter ?ps ''SW'' (0, -68.58)) ?pt"
      using kxy [of "''SW''" 0 "-68.58"] xy se by auto
    have hd: "\<not> inside (header_cutter PC104Spec_default) ?pt"
      using hxy xy se by auto
    have c4: "inside (standoff_cylinder ?ps ''SE'' (85.73, -72.39)) ?pt = (0 \<le> z \<and> z \<le> 9.5)"
      using own [of "''SE''"] se by simp
    have k4: "inside (hole_cutter ?ps ''SE'' (85.73, -72.39)) ?pt = (2 \<le> z \<and> z \<le> 22)"
      using k [of "''SE''"] se by simp
    show ?thesis
      unfolding inside_make_pc104_standoff using p c1 k1 c2 k2 c3 k3 c4 k4 hd by linarith
  qed
qed


lemma default_header_iff:
  "inside (header_cutter PC104Spec_default) (x, y, z)
     = (\<bar>x - 3.81\<bar> \<le> 9.08 \<and> \<bar>y + 31.75\<bar> \<le> 34.52 \<and> 0 \<le> z \<and> z \<le> 20)"
  unfolding inside_header_cutter
  by (simp add: PC104Spec_default_def stack_headers_center_coord_def)

lemma inside_default_z:
  assumes "inside default_part (x, y, z)"
  shows "0 \<le> z \<and> z \<le> 9.5"
  using assms default_plate_z [of x y z] default_standoff_z [of _ _ _ x y z]
  unfolding inside_make_pc104_standoff by fastforce

lemma header_slot_clear:
  assumes "\<bar>x - 3.81\<bar> \<le> 9.08" and "\<bar>y + 31.75\<bar> \<le> 34.52"
  shows "\<not> inside default_part (x, y, z)"
proof
  assume m: "inside default_part (x, y, z)"
  from inside_default_z [OF m] assms
  have "inside (header_cutter PC104Spec_default) (x, y, z)"
    unfolding default_header_iff by simp
  with m show False
    unfolding inside_make_pc104_standoff by blast
qed

lemmas eval_defs = make_pc104_standoff_unfold standoff_cylinder_def hole_cutter_def
  header_cutter_def base_plate_def stack_headers_center_coord_def CCM_def
  PC104Spec_default_def StandSpec_default_def shape_lo_def shape_hi_def between_def
  disc_def rounded_rect_def power2_eq_square

lemma top_point: "inside default_part (88.23, 7.62, 9.5)"
  by (simp add: eval_defs)

lemma plate_point: "inside default_part (40, 0, 1)"
  by (simp add: eval_defs)


section \<open>Lemmas about double-precision rounding\<close>

subsection \<open>Evaluation\<close>

lemma powi_eval: "(2::real) powi e = (if 0 \<le> e then 2 ^ nat e else 1 / 2 ^ nat (- e))"
  by (simp add: power_int_def inverse_eq_divide power_one_over)

lemmas f64_eval = f64_round_def ilog2_def round_half_even_def compute_bitlen
  powi_eval Let_def

lemma f64_round_examples:
  "f64_round 0.1 = F64 (3602879701896397 / 36028797018963968)"
  "f64_round (2 ^ 1024 - 2 ^ 971) = F64 (2 ^ 1024 - 2 ^ 971)"
  "f64_round (2 ^ 1024 - 2 ^ 970) = PInf"
  "f64_round (- (2 ^ 1024)) = NInf"
  "f64_round (1 / 2 ^ 1074) = F64 (1 / 2 ^ 1074)"
  "f64_round (1 / 2 ^ 1075) = F64 0"
  "f64_round (3 / 2 ^ 1075) = F64 (1 / 2 ^ 1073)"
  "f64_of_int (2 ^ 53 + 1) = Inr (F64 (2 ^ 53))"
  "f64_of_int (2 ^ 53 + 3) = Inr (F64 (2 ^ 53 + 4))"
  "f64_of_int (2 ^ 1024) = Inl OverflowError"
  by (simp_all add: f64_eval f64_of_int_def)


subsection \<open>The rounding error\<close>

lemma round_half_even_error: "\<bar>real_of_int (round_half_even x) - x\<bar> \<le> 1 / 2"
proof -
  have "real_of_int \<lfloor>x\<rfloor> \<le> x" "x < real_of_int \<lfloor>x\<rfloor> + 1"
    by linarith+
  then show ?thesis
    by (auto simp: round_half_even_def Let_def)
qed

lemma ilog2_lower:
  assumes "0 < x"
  shows "2 powi (ilog2 x) \<le> x"
proof (cases "1 \<le> x")
  case True
  then have m: "0 < \<lfloor>x\<rfloor>" by linarith
  from bitlen_bounds [OF m] have "(2::int) ^ nat (bitlen \<lfloor>x\<rfloor> - 1) \<le> \<lfloor>x\<rfloor>" by blast
  then have "real_of_int ((2::int) ^ nat (bitlen \<lfloor>x\<rfloor> - 1)) \<le> x"
    by (simp only: le_floor_iff)
  then have "(2::real) ^ nat (bitlen \<lfloor>x\<rfloor> - 1) \<le> x"
    by simp
  moreover have "1 \<le> bitlen \<lfloor>x\<rfloor>"
    using m bitlen_eq_zero_iff [of "\<lfloor>x\<rfloor>"] bitlen_nonneg [of "\<lfloor>x\<rfloor>"] by linarith
  ultimately show ?thesis
    using True by (simp add: ilog2_def power_int_def)
next
  case False
  with assms have x: "0 < x" "x < 1" by simp_all
  define c where "c = \<lceil>1 / x\<rceil>"
  have "1 < 1 / x" using x by simp
  then have c2: "2 \<le> c" unfolding c_def by linarith
  then have m: "0 < c - 1" by simp
  define j where "j = bitlen (c - 1)"
  from bitlen_bounds [OF m] have "c - 1 < 2 ^ nat j" unfolding j_def by blast
  then have "c \<le> 2 ^ nat j" by simp
  then have "real_of_int c \<le> real_of_int (2 ^ nat j)"
    by (simp only: of_int_le_iff)
  also have "\<dots> = 2 ^ nat j" by simp
  finally have "real_of_int c \<le> 2 ^ nat j" .
  moreover have "1 / x \<le> real_of_int c" unfolding c_def by linarith
  ultimately have "1 / x \<le> 2 ^ nat j" by linarith
  then have "1 / 2 ^ nat j \<le> x"
    using x by (simp add: field_simps)
  moreover have "1 \<le> j"
    unfolding j_def
    using m bitlen_eq_zero_iff [of "c - 1"] bitlen_nonneg [of "c - 1"] by linarith
  ultimately show ?thesis
    using False by (simp add: ilog2_def c_def [symmetric] j_def [symmetric] power_int_def
        power_inverse inverse_eq_divide power_one_over)
qed



lemma ilog2_upper:
  assumes "0 < x"
  shows "x < 2 powi (ilog2 x + 1)"
proof (cases "1 \<le> x")
  case True
  then have m: "0 < \<lfloor>x\<rfloor>" by linarith
  have b1: "1 \<le> bitlen \<lfloor>x\<rfloor>"
    using m bitlen_eq_zero_iff [of "\<lfloor>x\<rfloor>"] bitlen_nonneg [of "\<lfloor>x\<rfloor>"] by linarith
  from bitlen_bounds [OF m] have "\<lfloor>x\<rfloor> < 2 ^ nat (bitlen \<lfloor>x\<rfloor>)" by blast
  then have "x < real_of_int (2 ^ nat (bitlen \<lfloor>x\<rfloor>))"
    by (simp only: floor_less_iff)
  then have "x < 2 ^ nat (bitlen \<lfloor>x\<rfloor>)" by simp
  then show ?thesis
    using True b1 by (simp add: ilog2_def power_int_def)
next
  case False
  with assms have x: "0 < x" "x < 1" by simp_all
  define c where "c = \<lceil>1 / x\<rceil>"
  have "1 < 1 / x" using x by simp
  then have c2: "2 \<le> c" unfolding c_def by linarith
  then have m: "0 < c - 1" by simp
  define j where "j = bitlen (c - 1)"
  have j1: "1 \<le> j"
    unfolding j_def
    using m bitlen_eq_zero_iff [of "c - 1"] bitlen_nonneg [of "c - 1"] by linarith
  from bitlen_bounds [OF m] have "2 ^ nat (j - 1) \<le> c - 1" unfolding j_def by blast
  then have "real_of_int (2 ^ nat (j - 1)) \<le> real_of_int (c - 1)"
    by (simp only: of_int_le_iff)
  moreover have "real_of_int (c - 1) < 1 / x" unfolding c_def by simp linarith
  ultimately have "2 ^ nat (j - 1) < 1 / x" by simp
  then have "x < 1 / 2 ^ nat (j - 1)"
    using x by (simp add: field_simps)
  moreover have "nat (- (1 - j)) = nat (j - 1)" by simp
  ultimately show ?thesis
    using False j1 by (simp add: ilog2_def c_def [symmetric] j_def [symmetric] power_int_def
        inverse_eq_divide power_one_over)
qed

lemma ilog2_nonneg:
  assumes "1 \<le> x"
  shows "0 \<le> ilog2 x"
proof -
  have m: "0 < \<lfloor>x\<rfloor>" using assms by linarith
  have "1 \<le> bitlen \<lfloor>x\<rfloor>"
    using m bitlen_eq_zero_iff [of "\<lfloor>x\<rfloor>"] bitlen_nonneg [of "\<lfloor>x\<rfloor>"] by linarith
  then show ?thesis using assms by (simp add: ilog2_def)
qed

lemma f64_round_grid:
  assumes "f64_round x = F64 y" and "x \<noteq> 0"
  shows "\<bar>y - x\<bar> \<le> 2 powi (max (ilog2 \<bar>x\<bar> - 52) (- 1074)) / 2"
proof -
  define e where "e = max (ilog2 \<bar>x\<bar> - 52) (- 1074)"
  define n where "n = round_half_even (x / 2 powi e)"
  have pos: "(0::real) < 2 powi e" by (simp add: power_int_def)
  have y: "y = real_of_int n * 2 powi e"
    using assms unfolding f64_round_def e_def [symmetric] n_def Let_def
    by (simp split: if_splits)
  have "\<bar>y - x\<bar> = \<bar>real_of_int n - x / 2 powi e\<bar> * 2 powi e"
  proof -
    have "y - x = (real_of_int n - x / 2 powi e) * 2 powi e"
      using pos by (simp add: y field_simps)
    then show ?thesis using pos by (simp add: abs_mult)
  qed
  also have "\<dots> \<le> (1 / 2) * 2 powi e"
    using round_half_even_error [of "x / 2 powi e"] pos
    unfolding n_def by (intro mult_right_mono) simp_all
  finally show ?thesis unfolding e_def by simp
qed

lemma f64_round_error:
  assumes "f64_round x = F64 y"
  shows "\<bar>y - x\<bar> \<le> \<bar>x\<bar> / 2 ^ 53 + 1 / 2 ^ 1075"
proof (cases "x = 0")
  case True
  then show ?thesis using assms by (simp add: f64_round_def)
next
  case False
  define k where "k = ilog2 \<bar>x\<bar>"
  have low: "2 powi k \<le> \<bar>x\<bar>"
    unfolding k_def using False by (intro ilog2_lower) simp
  note grid = f64_round_grid [OF assms False, folded k_def]
  show ?thesis
  proof (cases "- 1074 \<le> k - 52")
    case True
    then have "max (k - 52) (- 1074) = k + (- 52)" by simp
    then have "\<bar>y - x\<bar> \<le> 2 powi (k + (- 52)) / 2" using grid by simp
    also have "\<dots> = 2 powi k / 2 ^ 53"
      by (subst power_int_add) (simp_all add: powi_eval)
    also have "\<dots> \<le> \<bar>x\<bar> / 2 ^ 53"
      using low by (simp add: divide_right_mono)
    finally have "\<bar>y - x\<bar> \<le> \<bar>x\<bar> / 2 ^ 53" .
    moreover have "(0::real) \<le> 1 / 2 ^ 1075" by simp
    ultimately show ?thesis by linarith
  next
    case False
    then have "max (k - 52) (- 1074) = - 1074" by simp
    then have "\<bar>y - x\<bar> \<le> 2 powi (- 1074) / 2" using grid by simp
    also have "\<dots> = 1 / 2 ^ 1075" by (simp add: powi_eval)
    finally have "\<bar>y - x\<bar> \<le> 1 / 2 ^ 1075" .
    moreover have "0 \<le> \<bar>x\<bar> / 2 ^ 53" by simp
    ultimately show ?thesis by linarith
  qed
qed

lemma f64_round_error_int:
  assumes "f64_round (real_of_int n) = F64 y"
  shows "\<bar>y - real_of_int n\<bar> \<le> \<bar>real_of_int n\<bar> / 2 ^ 53"
proof (cases "n = 0")
  case True
  then show ?thesis using assms by (simp add: f64_round_def)
next
  case False
  then have x0: "real_of_int n \<noteq> 0" and x1: "1 \<le> \<bar>real_of_int n\<bar>"
    by simp_all
  define k where "k = ilog2 \<bar>real_of_int n\<bar>"
  have low: "2 powi k \<le> \<bar>real_of_int n\<bar>"
    unfolding k_def using x0 by (intro ilog2_lower) simp
  have "0 \<le> k" unfolding k_def using x1 by (rule ilog2_nonneg)
  then have "max (k - 52) (- 1074) = k + (- 52)" by simp
  with f64_round_grid [OF assms x0, folded k_def]
  have "\<bar>y - real_of_int n\<bar> \<le> 2 powi (k + (- 52)) / 2" by simp
  also have "\<dots> = 2 powi k / 2 ^ 53"
    by (subst power_int_add) (simp_all add: powi_eval)
  also have "\<dots> \<le> \<bar>real_of_int n\<bar> / 2 ^ 53"
    using low by (simp add: divide_right_mono)
  finally show ?thesis .
qed


subsection \<open>The error of the Y coordinate\<close>

lemma f64_of_int_finite:
  assumes "f64_of_int n = Inr a"
  obtains v where "a = F64 v" and "f64_round (real_of_int n) = F64 v"
  using assms unfolding f64_of_int_def by (cases "f64_round (real_of_int n)") auto

lemma f64_div_two_finite:
  assumes "f64_div m (F64 2) = Inr (F64 h)"
  obtains v where "m = F64 v" and "f64_round (v / 2) = F64 h"
  using assms by (cases m) (auto split: if_splits)

lemma f64_mul_finite:
  assumes "f64_mul (F64 a) (F64 p) = F64 m"
  shows "f64_round (a * p) = F64 m"
  using assms by simp

lemma f64_sub_finite:
  assumes "f64_sub (F64 t) hh = F64 y"
  obtains h where "hh = F64 h" and "f64_round (t - h) = F64 y"
  using assms by (cases hh) auto

lemma pin_span_half_f64_error:
  assumes "pin_span_half_f64 n (F64 p) = Inr (F64 h)"
  shows "\<bar>h - real_of_int (n - 1) * p / 2\<bar>
           \<le> 2 * \<bar>real_of_int (n - 1) * p\<bar> / 2 ^ 53 + 2 / 2 ^ 1075"
proof -
  define N where "N = real_of_int (n - 1)"
  define u :: real where "u = 1 / 2 ^ 53"
  define eta :: real where "eta = 1 / 2 ^ 1075"
  from assms obtain nn where nn: "f64_of_int (n - 1) = Inr nn"
    and dv: "f64_div (f64_mul nn (F64 p)) (F64 2) = Inr (F64 h)"
    unfolding pin_span_half_f64_def by (auto split: sum.splits)
  from nn obtain a where a: "nn = F64 a" and ra: "f64_round (real_of_int (n - 1)) = F64 a"
    by (rule f64_of_int_finite)
  from dv obtain m where m: "f64_mul nn (F64 p) = F64 m" and rh: "f64_round (m / 2) = F64 h"
    by (rule f64_div_two_finite)
  from m a have rm: "f64_round (a * p) = F64 m" by simp
  have ea: "\<bar>a - N\<bar> \<le> u * \<bar>N\<bar>"
    using f64_round_error_int [OF ra] unfolding N_def u_def by simp
  have em: "\<bar>m - a * p\<bar> \<le> u * \<bar>a * p\<bar> + eta"
    using f64_round_error [OF rm] unfolding u_def eta_def by simp
  have eh: "\<bar>h - m / 2\<bar> \<le> u * \<bar>m\<bar> / 2 + eta"
    using f64_round_error [OF rh] unfolding u_def eta_def by simp
  define Q where "Q = \<bar>N * p\<bar>"
  have Q0: "0 \<le> Q" unfolding Q_def by simp
  have "\<bar>a * p - N * p\<bar> = \<bar>a - N\<bar> * \<bar>p\<bar>"
    by (simp add: abs_mult flip: left_diff_distrib)
  also have "\<dots> \<le> (u * \<bar>N\<bar>) * \<bar>p\<bar>"
    using ea by (rule mult_right_mono) simp
  also have "\<dots> = u * Q" by (simp add: Q_def abs_mult)
  finally have eap: "\<bar>a * p - N * p\<bar> \<le> u * Q" .
  have Qd: "\<bar>N * p\<bar> = Q" by (simp add: Q_def)
  have u0: "0 \<le> u" and u1: "u \<le> 1 / 4" by (simp_all add: u_def)
  have eta0: "0 \<le> eta" by (simp add: eta_def)
  have uQ: "0 \<le> u * Q" using u0 Q0 by simp
  have ap: "\<bar>a * p\<bar> \<le> Q + u * Q" using eap Qd by linarith
  have uap: "u * \<bar>a * p\<bar> \<le> u * Q + u * (u * Q)"
  proof -
    have "u * \<bar>a * p\<bar> \<le> u * (Q + u * Q)"
      using ap u0 by (rule mult_left_mono)
    then show ?thesis by (simp add: algebra_simps)
  qed
  have uuQ: "u * (u * Q) \<le> u * Q / 4"
  proof -
    have "u * (u * Q) \<le> (1 / 4) * (u * Q)"
      using u1 uQ by (intro mult_right_mono) simp_all
    then show ?thesis by simp
  qed
  define d where "d = u * Q"
  have d0: "0 \<le> d" unfolding d_def by (rule uQ)
  have mm: "\<bar>m - N * p\<bar> \<le> 9 / 4 * d + eta"
    using em eap uap uuQ unfolding d_def by linarith
  have mabs: "\<bar>m\<bar> \<le> Q + 9 / 4 * d + eta" using mm Qd by linarith
  have um: "u * \<bar>m\<bar> \<le> d + 9 / 16 * d + eta / 4"
  proof -
    have "u * \<bar>m\<bar> \<le> u * (Q + 9 / 4 * d + eta)"
      using mabs u0 by (rule mult_left_mono)
    also have "\<dots> = d + 9 / 4 * (u * d) + u * eta"
      by (simp add: d_def algebra_simps)
    also have "\<dots> \<le> d + 9 / 4 * (1 / 4 * d) + 1 / 4 * eta"
    proof -
      have "u * d \<le> 1 / 4 * d" using u1 d0 by (rule mult_right_mono)
      moreover have "u * eta \<le> 1 / 4 * eta" using u1 eta0 by (rule mult_right_mono)
      ultimately show ?thesis by linarith
    qed
    finally show ?thesis by simp
  qed
  have "\<bar>h - N * p / 2\<bar> \<le> 2 * d + 2 * eta"
    using eh um mm d0 eta0 by linarith
  then show ?thesis unfolding N_def Q_def u_def eta_def d_def by simp
qed


lemma f64_sub_span_error:
  assumes "pin_span_half_f64 n (F64 p) = Inr hh" and "f64_sub (F64 t) hh = F64 y"
  shows "\<bar>y - (t - real_of_int (n - 1) * p / 2)\<bar>
           \<le> (\<bar>t\<bar> + 3 * \<bar>real_of_int (n - 1) * p\<bar>) / 2 ^ 53 + 4 / 2 ^ 1075"
proof -
  define u :: real where "u = 1 / 2 ^ 53"
  define eta :: real where "eta = 1 / 2 ^ 1075"
  define z where "z = real_of_int (n - 1) * p"
  from assms(2) obtain h where hh: "hh = F64 h" and ry: "f64_round (t - h) = F64 y"
    by (rule f64_sub_finite)
  have eh: "\<bar>h - z / 2\<bar> \<le> 2 * (u * \<bar>z\<bar>) + 2 * eta"
    using pin_span_half_f64_error [OF assms(1) [unfolded hh]]
    unfolding z_def u_def eta_def by simp
  have ey: "\<bar>y - (t - h)\<bar> \<le> u * \<bar>t - h\<bar> + eta"
    using f64_round_error [OF ry] unfolding u_def eta_def by simp
  have u0: "0 \<le> u" and u1: "u \<le> 1 / 4" by (simp_all add: u_def)
  have eta0: "0 \<le> eta" by (simp add: eta_def)
  define d where "d = u * \<bar>z\<bar>"
  have d0: "0 \<le> d" unfolding d_def using u0 by simp
  have th: "\<bar>t - h\<bar> \<le> \<bar>t\<bar> + \<bar>z\<bar> / 2 + 2 * d + 2 * eta"
    using eh unfolding d_def by linarith
  have uth: "u * \<bar>t - h\<bar> \<le> u * \<bar>t\<bar> + d / 2 + d / 2 + eta / 2"
  proof -
    have "u * \<bar>t - h\<bar> \<le> u * (\<bar>t\<bar> + \<bar>z\<bar> / 2 + 2 * d + 2 * eta)"
      using th u0 by (rule mult_left_mono)
    also have "\<dots> = u * \<bar>t\<bar> + d / 2 + 2 * (u * d) + 2 * (u * eta)"
      by (simp add: d_def algebra_simps)
    also have "\<dots> \<le> u * \<bar>t\<bar> + d / 2 + 2 * (1 / 4 * d) + 2 * (1 / 4 * eta)"
    proof -
      have "u * d \<le> 1 / 4 * d" using u1 d0 by (rule mult_right_mono)
      moreover have "u * eta \<le> 1 / 4 * eta" using u1 eta0 by (rule mult_right_mono)
      ultimately show ?thesis by linarith
    qed
    finally show ?thesis by simp
  qed
  have "\<bar>y - (t - z / 2)\<bar> \<le> u * \<bar>t\<bar> + 3 * d + 4 * eta"
    using ey uth eh d0 eta0 unfolding d_def by linarith
  then show ?thesis
    unfolding z_def u_def eta_def d_def by (simp add: algebra_simps add_divide_distrib)
qed



lemma stack_headers_center_coord_f64_parts:
  assumes "stack_headers_center_coord_f64 self = Inr (X, Y)"
  obtains hx hy where
    "pin_span_half_f64 (pin_count_x self) (f64_round (pin_pitch self)) = Inr hx"
    "pin_span_half_f64 (pin_count_y self) (f64_round (pin_pitch self)) = Inr hy"
    "X = f64_add (f64_round (fst (top_left_pin_coord self))) hx"
    "Y = f64_sub (f64_round (snd (top_left_pin_coord self))) hy"
  using assms unfolding stack_headers_center_coord_f64_def Let_def
  by (auto split: sum.splits)

section \<open>Properties\<close>

subsection \<open>Hole coordinates\<close>

text \<open>
  C1. For every PC104Spec, \<open>hole_coord_list\<close> is the mapping with exactly the four keys
  NW, NE, SW, SE (each once, in this order) and the values NW = (0, 5.08),
  NE = (85.73, 7.62), SW = (0, -68.58), SE = (85.73, -72.39); it is the same for every
  spec, whatever its fields.
\<close>

theorem hole_coord_list_fixed:
  "hole_coord_list self =
     [(''NW'', (0, 5.08)), (''NE'', (85.73, 7.62)), (''SW'', (0, -68.58)), (''SE'', (85.73, -72.39))]
   \<and> dom (map_of (hole_coord_list self)) = {''NW'', ''NE'', ''SW'', ''SE''}
   \<and> distinct (map fst (hole_coord_list self))
   \<and> map_of (hole_coord_list self) ''NW'' = Some (0, 5.08)
   \<and> map_of (hole_coord_list self) ''NE'' = Some (85.73, 7.62)
   \<and> map_of (hole_coord_list self) ''SW'' = Some (0, -68.58)
   \<and> map_of (hole_coord_list self) ''SE'' = Some (85.73, -72.39)
   \<and> hole_coord_list self = hole_coord_list other"
  by (auto simp: hole_coord_list_def)

theorem hole_coord_list_fixed_default:
  "map_of (hole_coord_list PC104Spec_default) ''SE'' = Some (85.73, -72.39)
   \<and> map (fst) (hole_coord_list PC104Spec_default) = [''NW'', ''NE'', ''SW'', ''SE'']
   \<and> hole_coord_list (PC104Spec_default\<lparr>pin_count_x := 7, box_width_x := 1\<rparr>)
       = hole_coord_list PC104Spec_default"
  using hole_coord_list_fixed [of PC104Spec_default "PC104Spec_default\<lparr>pin_count_x := 7, box_width_x := 1\<rparr>"]
  by (simp add: hole_coord_list_def)

subsection \<open>Centre of the stack headers\<close>

text \<open>
  C3. For the default PC104Spec, \<open>stack_headers_center_coord\<close> is (3.81, -31.75); for
  every spec it is
  (top\_left\_pin\_coord.x + (pin\_count\_x - 1) * pin\_pitch / 2,
   top\_left\_pin\_coord.y - (pin\_count\_y - 1) * pin\_pitch / 2).
\<close>

theorem stack_headers_center_coord_value:
  "stack_headers_center_coord PC104Spec_default = (3.81, -31.75)
   \<and> stack_headers_center_coord self =
       (fst (top_left_pin_coord self) + (real_of_int (pin_count_x self) - 1) * pin_pitch self / 2,
        snd (top_left_pin_coord self) - (real_of_int (pin_count_y self) - 1) * pin_pitch self / 2)"
  by (simp add: stack_headers_center_coord_def PC104Spec_default_def)

theorem stack_headers_center_coord_value_at:
  "stack_headers_center_coord
     (PC104Spec_default\<lparr>top_left_pin_coord := (1, 2), pin_count_x := 3, pin_count_y := 5,
        pin_pitch := 2\<rparr>) = (3, -2)"
  using stack_headers_center_coord_value
    [of "PC104Spec_default\<lparr>top_left_pin_coord := (1, 2), pin_count_x := 3, pin_count_y := 5,
        pin_pitch := 2\<rparr>"]
  by simp

text \<open>
  In exact arithmetic one more pin row moves the Y coordinate by exactly
  \<open>- pin_pitch / 2\<close> and leaves the X coordinate as it is: the Y coordinate is linear in
  \<open>pin_count_y\<close>. This is the line that the doubles of the code follow up to rounding.
\<close>

lemma stack_headers_center_coord_exact_arithmetic:
  "snd (stack_headers_center_coord (self\<lparr>pin_count_y := pin_count_y self + 1\<rparr>))
     = snd (stack_headers_center_coord self) - pin_pitch self / 2
   \<and> fst (stack_headers_center_coord (self\<lparr>pin_count_y := pin_count_y self + 1\<rparr>))
     = fst (stack_headers_center_coord self)
   \<and> snd (stack_headers_center_coord (self\<lparr>pin_count_y := pin_count_y self + k\<rparr>))
     = snd (stack_headers_center_coord self) - real_of_int k * (pin_pitch self / 2)
   \<and> fst (stack_headers_center_coord (self\<lparr>pin_count_y := pin_count_y self + k\<rparr>))
     = fst (stack_headers_center_coord self)"
  by (simp add: stack_headers_center_coord_def field_simps)

text \<open>
  C6, as the code has it. For every PC104Spec for which \<open>stack_headers_center_coord\<close>
  returns finite coordinates before and after \<open>pin_count_y\<close> is increased by 1 (every
  other field kept), the X coordinate is unchanged, and the Y coordinate changes by
  \<open>- pin_pitch / 2\<close> up to the rounding of the doubles: with \<open>t\<close> the Y coordinate of the
  top left pin, \<open>p\<close> the pitch and \<open>n\<close> the pin count, each Y is within
  \<open>(\<bar>t\<bar> + 3 * \<bar>(n - 1) * p\<bar>) / 2 ^ 53 + 4 / 2 ^ 1075\<close> of the exact
  \<open>t - (n - 1) * p / 2\<close>, and the change of Y differs from \<open>- p / 2\<close> by at most the sum
  of the two bounds.
\<close>

theorem stack_headers_center_coord_f64_pin_count_y:
  assumes "f64_round (pin_pitch self) = F64 p"
    and "f64_round (snd (top_left_pin_coord self)) = F64 t"
    and "stack_headers_center_coord_f64 self = Inr (X, F64 y)"
    and "stack_headers_center_coord_f64 (self\<lparr>pin_count_y := pin_count_y self + 1\<rparr>)
           = Inr (X', F64 y')"
  shows "X' = X
    \<and> \<bar>y - (t - real_of_int (pin_count_y self - 1) * p / 2)\<bar>
        \<le> (\<bar>t\<bar> + 3 * \<bar>real_of_int (pin_count_y self - 1) * p\<bar>) / 2 ^ 53 + 4 / 2 ^ 1075
    \<and> \<bar>y' - (t - real_of_int (pin_count_y self) * p / 2)\<bar>
        \<le> (\<bar>t\<bar> + 3 * \<bar>real_of_int (pin_count_y self) * p\<bar>) / 2 ^ 53 + 4 / 2 ^ 1075
    \<and> \<bar>y' - (y - p / 2)\<bar>
        \<le> (2 * \<bar>t\<bar> + 3 * (\<bar>real_of_int (pin_count_y self - 1) * p\<bar>
                              + \<bar>real_of_int (pin_count_y self) * p\<bar>)) / 2 ^ 53
          + 8 / 2 ^ 1075"
proof -
  let ?self' = "self\<lparr>pin_count_y := pin_count_y self + 1\<rparr>"
  let ?n = "pin_count_y self"
  from assms(3) obtain hx hy where
    hx: "pin_span_half_f64 (pin_count_x self) (f64_round (pin_pitch self)) = Inr hx"
    and hy: "pin_span_half_f64 ?n (f64_round (pin_pitch self)) = Inr hy"
    and X: "X = f64_add (f64_round (fst (top_left_pin_coord self))) hx"
    and Y: "F64 y = f64_sub (f64_round (snd (top_left_pin_coord self))) hy"
    by (rule stack_headers_center_coord_f64_parts)
  from assms(4) obtain hx' hy' where
    hx': "pin_span_half_f64 (pin_count_x ?self') (f64_round (pin_pitch ?self')) = Inr hx'"
    and hy': "pin_span_half_f64 (pin_count_y ?self') (f64_round (pin_pitch ?self')) = Inr hy'"
    and X': "X' = f64_add (f64_round (fst (top_left_pin_coord ?self'))) hx'"
    and Y': "F64 y' = f64_sub (f64_round (snd (top_left_pin_coord ?self'))) hy'"
    by (rule stack_headers_center_coord_f64_parts)
  have same: "X' = X"
    using hx hx' X X' by simp
  have sy: "f64_sub (F64 t) hy = F64 y"
    using Y assms(2) by simp
  have sy': "f64_sub (F64 t) hy' = F64 y'"
    using Y' assms(2) by simp
  have bnd: "\<bar>y - (t - real_of_int (?n - 1) * p / 2)\<bar>
        \<le> (\<bar>t\<bar> + 3 * \<bar>real_of_int (?n - 1) * p\<bar>) / 2 ^ 53 + 4 / 2 ^ 1075"
    using hy [unfolded assms(1)] sy by (rule f64_sub_span_error)
  have "pin_span_half_f64 (?n + 1) (F64 p) = Inr hy'"
    using hy' assms(1) by simp
  from f64_sub_span_error [OF this sy']
  have bnd': "\<bar>y' - (t - real_of_int ?n * p / 2)\<bar>
        \<le> (\<bar>t\<bar> + 3 * \<bar>real_of_int ?n * p\<bar>) / 2 ^ 53 + 4 / 2 ^ 1075"
    by simp
  define B where "B = (\<bar>t\<bar> + 3 * \<bar>real_of_int (?n - 1) * p\<bar>) / 2 ^ 53 + 4 / 2 ^ 1075"
  define B' where "B' = (\<bar>t\<bar> + 3 * \<bar>real_of_int ?n * p\<bar>) / 2 ^ 53 + 4 / 2 ^ 1075"
  have line: "t - real_of_int ?n * p / 2 = (t - real_of_int (?n - 1) * p / 2) - p / 2"
    by (simp add: field_simps)
  have "\<bar>y' - (y - p / 2)\<bar> \<le> B + B'"
    using bnd bnd' unfolding B_def [symmetric] B'_def [symmetric] line by linarith
  also have "B + B' = (2 * \<bar>t\<bar> + 3 * (\<bar>real_of_int (?n - 1) * p\<bar> + \<bar>real_of_int ?n * p\<bar>)) / 2 ^ 53
          + 8 / 2 ^ 1075"
    unfolding B_def B'_def by (simp add: add_divide_distrib)
  finally show ?thesis using same bnd bnd' by blast
qed

theorem stack_headers_center_coord_f64_pin_count_y_default:
  "stack_headers_center_coord_f64 PC104Spec_default
     = Inr (F64 (8579357290140795 / 2251799813685248), F64 (- (127 / 4)))
   \<and> stack_headers_center_coord_f64
       (PC104Spec_default\<lparr>pin_count_y := pin_count_y PC104Spec_default + 1\<rparr>)
     = Inr (F64 (8579357290140795 / 2251799813685248),
            F64 (- (4647151865492931 / 140737488355328)))
   \<and> \<bar>- (4647151865492931 / 140737488355328)
        - (- (127 / 4) - 2859785763380265 / 1125899906842624 / 2)\<bar>
       \<le> (2 * \<bar>0 :: real\<bar> + 3 * (\<bar>25 * (2859785763380265 / 1125899906842624)\<bar>
                            + \<bar>26 * (2859785763380265 / 1125899906842624)\<bar>)) / 2 ^ 53
         + 8 / 2 ^ (1075::nat)"
proof -
  have p: "f64_round (pin_pitch PC104Spec_default) = F64 (2859785763380265 / 1125899906842624)"
    by (simp add: PC104Spec_default_def f64_eval)
  have t: "f64_round (snd (top_left_pin_coord PC104Spec_default)) = F64 0"
    by (simp add: PC104Spec_default_def f64_round_def)
  have y: "stack_headers_center_coord_f64 PC104Spec_default
     = Inr (F64 (8579357290140795 / 2251799813685248), F64 (- (127 / 4)))"
    by (simp add: stack_headers_center_coord_f64_def pin_span_half_f64_def f64_of_int_def
          PC104Spec_default_def f64_eval)
  have y': "stack_headers_center_coord_f64
       (PC104Spec_default\<lparr>pin_count_y := pin_count_y PC104Spec_default + 1\<rparr>)
     = Inr (F64 (8579357290140795 / 2251799813685248),
            F64 (- (4647151865492931 / 140737488355328)))"
    by (simp add: stack_headers_center_coord_f64_def pin_span_half_f64_def f64_of_int_def
          PC104Spec_default_def f64_eval)
  from stack_headers_center_coord_f64_pin_count_y [OF p t y y'] y y'
  show ?thesis by (simp add: PC104Spec_default_def)
qed

text \<open>
  C6 as it is stated fails for the defaults from six pin rows to seven: the code returns
  the doubles \<open>-6.35\<close> and \<open>-7.62\<close>, and the first less \<open>pin_pitch / 2\<close> is
  \<open>-7.619999999999999\<close>, in doubles and in exact arithmetic alike not the second.
\<close>

theorem stack_headers_center_coord_f64_step_inexact:
  "stack_headers_center_coord_f64 (PC104Spec_default\<lparr>pin_count_y := 6\<rparr>)
     = Inr (F64 (8579357290140795 / 2251799813685248),
            F64 (- (3574732204225331 / 562949953421312)))
   \<and> stack_headers_center_coord_f64 (PC104Spec_default\<lparr>pin_count_y := 7\<rparr>)
     = Inr (F64 (8579357290140795 / 2251799813685248),
            F64 (- (8579357290140795 / 1125899906842624)))
   \<and> f64_round (pin_pitch PC104Spec_default) = F64 (2859785763380265 / 1125899906842624)
   \<and> f64_div (F64 (2859785763380265 / 1125899906842624)) (F64 2)
     = Inr (F64 (2859785763380265 / 2251799813685248))
   \<and> f64_sub (F64 (- (3574732204225331 / 562949953421312)))
        (F64 (2859785763380265 / 2251799813685248))
     = F64 (- (4289678645070397 / 562949953421312))
   \<and> F64 (- (4289678645070397 / 562949953421312))
     \<noteq> F64 (- (8579357290140795 / 1125899906842624))
   \<and> - (3574732204225331 / 562949953421312) - 2859785763380265 / 2251799813685248
     \<noteq> (- (8579357290140795 / 1125899906842624) :: real)"
  by (simp add: stack_headers_center_coord_f64_def pin_span_half_f64_def f64_of_int_def
        PC104Spec_default_def f64_eval)

subsection \<open>Standoffs\<close>

text \<open>
  C4. In \<open>make_pc104_standoff\<close> the standoff cylinder added at a hole has outer radius
  \<open>standoff_od_east / 2\<close> at the holes NE and SE and \<open>standoff_od_west / 2\<close> at NW and
  SW: the two fields are diameters, halved to radii. The parts the recipe adds are, in
  order, the filleted plate and the four cylinders at the four holes; the points of each
  cylinder are a disc of that radius around the hole, from \<open>z = 0\<close> to the standoff
  height.
\<close>

theorem standoff_outer_radius:
  "added (make_pc104_standoff pc104 part_spec) =
     [FilletZ (plate_plate_corner_radius part_spec) (base_plate pc104 part_spec),
      Translate (Solid (Cylinder (standoff_od_west part_spec / 2)
                          (standoff_total_height part_spec) CCM)) (0, 5.08, 0),
      Translate (Solid (Cylinder (standoff_od_east part_spec / 2)
                          (standoff_total_height part_spec) CCM)) (85.73, 7.62, 0),
      Translate (Solid (Cylinder (standoff_od_west part_spec / 2)
                          (standoff_total_height part_spec) CCM)) (0, -68.58, 0),
      Translate (Solid (Cylinder (standoff_od_east part_spec / 2)
                          (standoff_total_height part_spec) CCM)) (85.73, -72.39, 0)]
   \<and> inside (standoff_cylinder part_spec hole_name (cx, cy)) (x, y, z)
       = (disc cx cy ((if hole_name = ''NE'' \<or> hole_name = ''SE''
                       then standoff_od_east part_spec else standoff_od_west part_spec) / 2) x y
          \<and> 0 \<le> z \<and> z \<le> standoff_total_height part_spec)"
proof (intro conjI)
  show "added (make_pc104_standoff pc104 part_spec) =
     [FilletZ (plate_plate_corner_radius part_spec) (base_plate pc104 part_spec),
      Translate (Solid (Cylinder (standoff_od_west part_spec / 2)
                          (standoff_total_height part_spec) CCM)) (0, 5.08, 0),
      Translate (Solid (Cylinder (standoff_od_east part_spec / 2)
                          (standoff_total_height part_spec) CCM)) (85.73, 7.62, 0),
      Translate (Solid (Cylinder (standoff_od_west part_spec / 2)
                          (standoff_total_height part_spec) CCM)) (0, -68.58, 0),
      Translate (Solid (Cylinder (standoff_od_east part_spec / 2)
                          (standoff_total_height part_spec) CCM)) (85.73, -72.39, 0)]"
    by (simp add: added_make_pc104_standoff standoff_cylinder_def)
  show "inside (standoff_cylinder part_spec hole_name (cx, cy)) (x, y, z)
       = (disc cx cy ((if hole_name = ''NE'' \<or> hole_name = ''SE''
                       then standoff_od_east part_spec else standoff_od_west part_spec) / 2) x y
          \<and> 0 \<le> z \<and> z \<le> standoff_total_height part_spec)"
    by (rule inside_standoff_cylinder)
qed

theorem standoff_outer_radius_default:
  "tl (added default_part) =
     [Translate (Solid (Cylinder 2.9 9.5 CCM)) (0, 5.08, 0),
      Translate (Solid (Cylinder 3.25 9.5 CCM)) (85.73, 7.62, 0),
      Translate (Solid (Cylinder 2.9 9.5 CCM)) (0, -68.58, 0),
      Translate (Solid (Cylinder 3.25 9.5 CCM)) (85.73, -72.39, 0)]
   \<and> inside (standoff_cylinder StandSpec_default ''NE'' (85.73, 7.62)) (88.73, 7.62, 5)
   \<and> \<not> inside (standoff_cylinder StandSpec_default ''NW'' (0, 5.08)) (3, 5.08, 5)"
  using standoff_outer_radius [of PC104Spec_default StandSpec_default "''NE''" "85.73" "7.62" "88.73" "7.62" 5]
    standoff_outer_radius [of PC104Spec_default StandSpec_default "''NW''" 0 "5.08" 3 "5.08" 5]
  by (simp add: StandSpec_default_def disc_def power2_eq_square)



subsection \<open>Holes\<close>

text \<open>
  C2, as the code has it. In \<open>make_pc104_standoff\<close>, at each of the four holes a
  cylinder of radius \<open>standoff_id / 2\<close> and length 20 is subtracted, with its base at
  \<open>z = -10\<close> for the NW hole and at \<open>z = base_plate_thickness\<close> for the other three.
  The NW cutter spans \<open>z\<close> from -10 to 10: it reaches beyond plate and standoff on both
  sides whenever \<open>base_plate_thickness\<close> and \<open>standoff_total_height\<close> are below 10,
  as they are for the defaults, where no point strictly within the hole's radius of the
  NW hole belongs to the part. At NE, SW and SE the cutter spans \<open>z\<close> from
  \<open>base_plate_thickness\<close> to \<open>base_plate_thickness + 20\<close>: it does not reach below the
  top face of the plate, so on the axis of the hole the standoff keeps its material
  below that face, and the hole is blind. For the defaults, strictly within the hole's
  radius of such a hole, the part is solid for \<open>0 \<le> z < 2\<close> and empty for \<open>z > 2\<close>
  and for \<open>z < 0\<close>.
\<close>

theorem hole_cutter_extent:
  "removed (make_pc104_standoff pc104 part_spec) =
     [Translate (Solid (Cylinder (standoff_id part_spec / 2) 20 CCM)) (0, 5.08, - 10),
      Translate (Solid (Cylinder (standoff_id part_spec / 2) 20 CCM))
        (85.73, 7.62, base_plate_thickness part_spec),
      Translate (Solid (Cylinder (standoff_id part_spec / 2) 20 CCM))
        (0, -68.58, base_plate_thickness part_spec),
      Translate (Solid (Cylinder (standoff_id part_spec / 2) 20 CCM))
        (85.73, -72.39, base_plate_thickness part_spec),
      header_cutter pc104]
   \<and> inside (hole_cutter part_spec hole_name (cx, cy)) (x, y, z)
       = (disc cx cy (standoff_id part_spec / 2) x y
          \<and> (if hole_name = ''NW'' then - 10 \<le> z \<and> z \<le> 10
             else base_plate_thickness part_spec \<le> z
                  \<and> z \<le> base_plate_thickness part_spec + 20))
   \<and> (base_plate_thickness part_spec < 10 \<and> standoff_total_height part_spec < 10
        \<and> (inside (base_plate pc104 part_spec) (x, y, z)
             \<or> inside (standoff_cylinder part_spec ''NW'' (cx, cy)) (x, y, z))
        \<longrightarrow> - 10 < z \<and> z < 10)
   \<and> (hole_name \<noteq> ''NW'' \<and> 0 \<le> z \<and> z < base_plate_thickness part_spec
        \<and> z \<le> standoff_total_height part_spec
        \<longrightarrow> inside (standoff_cylinder part_spec hole_name (cx, cy)) (cx, cy, z)
            \<and> \<not> inside (hole_cutter part_spec hole_name (cx, cy)) (cx, cy, z))
   \<and> ((hole_name, (cx, cy)) \<in> set (hole_coord_list PC104Spec_default)
        \<and> open_disc cx cy (standoff_id StandSpec_default / 2) x y
        \<longrightarrow> (if hole_name = ''NW'' then \<not> inside default_part (x, y, z)
             else (0 \<le> z \<and> z < base_plate_thickness StandSpec_default
                     \<longrightarrow> inside default_part (x, y, z))
                  \<and> (z < 0 \<or> base_plate_thickness StandSpec_default < z
                     \<longrightarrow> \<not> inside default_part (x, y, z))))"
proof (intro conjI)
  show "removed (make_pc104_standoff pc104 part_spec) =
     [Translate (Solid (Cylinder (standoff_id part_spec / 2) 20 CCM)) (0, 5.08, - 10),
      Translate (Solid (Cylinder (standoff_id part_spec / 2) 20 CCM))
        (85.73, 7.62, base_plate_thickness part_spec),
      Translate (Solid (Cylinder (standoff_id part_spec / 2) 20 CCM))
        (0, -68.58, base_plate_thickness part_spec),
      Translate (Solid (Cylinder (standoff_id part_spec / 2) 20 CCM))
        (85.73, -72.39, base_plate_thickness part_spec),
      header_cutter pc104]"
    by (simp add: removed_make_pc104_standoff hole_cutter_def)
  show "inside (hole_cutter part_spec hole_name (cx, cy)) (x, y, z)
       = (disc cx cy (standoff_id part_spec / 2) x y
          \<and> (if hole_name = ''NW'' then - 10 \<le> z \<and> z \<le> 10
             else base_plate_thickness part_spec \<le> z
                  \<and> z \<le> base_plate_thickness part_spec + 20))"
    by (rule inside_hole_cutter)
  show "base_plate_thickness part_spec < 10 \<and> standoff_total_height part_spec < 10
        \<and> (inside (base_plate pc104 part_spec) (x, y, z)
             \<or> inside (standoff_cylinder part_spec ''NW'' (cx, cy)) (x, y, z))
        \<longrightarrow> - 10 < z \<and> z < 10"
    using inside_base_plate [of pc104 part_spec x y z]
      standoff_z [of part_spec "''NW''" cx cy x y z]
    by linarith
  show "hole_name \<noteq> ''NW'' \<and> 0 \<le> z \<and> z < base_plate_thickness part_spec
        \<and> z \<le> standoff_total_height part_spec
        \<longrightarrow> inside (standoff_cylinder part_spec hole_name (cx, cy)) (cx, cy, z)
            \<and> \<not> inside (hole_cutter part_spec hole_name (cx, cy)) (cx, cy, z)"
    unfolding inside_standoff_cylinder inside_hole_cutter
    by (simp add: disc_centre)
  show "(hole_name, (cx, cy)) \<in> set (hole_coord_list PC104Spec_default)
        \<and> open_disc cx cy (standoff_id StandSpec_default / 2) x y
        \<longrightarrow> (if hole_name = ''NW'' then \<not> inside default_part (x, y, z)
             else (0 \<le> z \<and> z < base_plate_thickness StandSpec_default
                     \<longrightarrow> inside default_part (x, y, z))
                  \<and> (z < 0 \<or> base_plate_thickness StandSpec_default < z
                     \<longrightarrow> \<not> inside default_part (x, y, z)))"
  proof
    assume a: "(hole_name, (cx, cy)) \<in> set (hole_coord_list PC104Spec_default)
                \<and> open_disc cx cy (standoff_id StandSpec_default / 2) x y"
    then have d: "open_disc cx cy 1.75 x y"
      by (simp add: StandSpec_default_def)
    from a consider (nw) "hole_name = ''NW''" "cx = 0" "cy = 5.08"
      | (other) "(hole_name, (cx, cy)) \<in> {(''NE'', (85.73, 7.62)), (''SW'', (0, -68.58)),
                                           (''SE'', (85.73, -72.39))}"
      by (auto simp: hole_coord_list_def)
    then show "if hole_name = ''NW'' then \<not> inside default_part (x, y, z)
             else (0 \<le> z \<and> z < base_plate_thickness StandSpec_default
                     \<longrightarrow> inside default_part (x, y, z))
                  \<and> (z < 0 \<or> base_plate_thickness StandSpec_default < z
                     \<longrightarrow> \<not> inside default_part (x, y, z))"
    proof cases
      case nw
      with d have "open_disc 0 5.08 1.75 x y" by simp
      then have "\<not> inside default_part (x, y, z)" by (rule nw_hole_through)
      with nw show ?thesis by simp
    next
      case other
      then have "hole_name \<noteq> ''NW''" by auto
      moreover have "(0 \<le> z \<and> z < 2 \<longrightarrow> inside default_part (x, y, z))
         \<and> (z < 0 \<or> 2 < z \<longrightarrow> \<not> inside default_part (x, y, z))"
        using d other by (rule blind_hole)
      ultimately show ?thesis by (simp add: StandSpec_default_def)
    qed
  qed
qed

theorem hole_cutter_extent_default:
  "\<not> inside default_part (0, 5.08, 1)
   \<and> \<not> inside default_part (1, 5.08, 9)
   \<and> inside default_part (85.73, 7.62, 1)
   \<and> \<not> inside default_part (85.73, 7.62, 3)
   \<and> inside default_part (0, -68.58, 0)
   \<and> inside (standoff_cylinder StandSpec_default ''SE'' (85.73, -72.39)) (85.73, -72.39, 1)
   \<and> \<not> inside (hole_cutter StandSpec_default ''SE'' (85.73, -72.39)) (85.73, -72.39, 1)
   \<and> inside (hole_cutter StandSpec_default ''SE'' (85.73, -72.39)) (85.73, -72.39, 22)"
  using hole_cutter_extent [of PC104Spec_default StandSpec_default "''NW''" 0 "5.08" 0 "5.08" 1]
    hole_cutter_extent [of PC104Spec_default StandSpec_default "''NW''" 0 "5.08" 1 "5.08" 9]
    hole_cutter_extent [of PC104Spec_default StandSpec_default "''NE''" "85.73" "7.62" "85.73" "7.62" 1]
    hole_cutter_extent [of PC104Spec_default StandSpec_default "''NE''" "85.73" "7.62" "85.73" "7.62" 3]
    hole_cutter_extent [of PC104Spec_default StandSpec_default "''SW''" 0 "-68.58" 0 "-68.58" 0]
    hole_cutter_extent [of PC104Spec_default StandSpec_default "''SE''" "85.73" "-72.39" "85.73" "-72.39" 1]
    hole_cutter_extent [of PC104Spec_default StandSpec_default "''SE''" "85.73" "-72.39" "85.73" "-72.39" 22]
  by (simp add: disc_centre hole_coord_list_def StandSpec_default_def open_disc_def
        power2_eq_square)

text \<open>
  C2 as it is stated fails at the NE hole of the default part: on the axis of the hole
  at \<open>z = 1\<close> the point lies in the plate and in the standoff, the cutter (whose base is
  at \<open>z = 2\<close>) does not contain it, and it is still a point of the finished part.
\<close>

theorem hole_cutter_leaves_floor:
  "inside (base_plate PC104Spec_default StandSpec_default) (85.73, 7.62, 1)
   \<and> inside (standoff_cylinder StandSpec_default ''NE'' (85.73, 7.62)) (85.73, 7.62, 1)
   \<and> \<not> inside (hole_cutter StandSpec_default ''NE'' (85.73, 7.62)) (85.73, 7.62, 1)
   \<and> inside default_part (85.73, 7.62, 1)"
  by (simp add: eval_defs)

subsection \<open>Header clearance\<close>

text \<open>
  C5. In \<open>make_pc104_standoff\<close> the box subtracted last, for the stack header, has the
  size \<open>pin_count_x * pin_pitch + 8\<close> in x and \<open>pin_count_y * pin_pitch + 3\<close> in y, is
  centred in x and y on \<open>stack_headers_center_coord\<close> and spans \<open>z\<close> from 0 to 20; for
  the default dimensions it goes through the whole stack of plate and standoffs: no
  point of the part is left above or below the rectangle it covers.
\<close>

theorem header_cutter_extent:
  "inside (header_cutter pc104) (x, y, z)
     = (\<bar>x - fst (stack_headers_center_coord pc104)\<bar>
          \<le> (real_of_int (pin_count_x pc104) * pin_pitch pc104 + 8) / 2
        \<and> \<bar>y - snd (stack_headers_center_coord pc104)\<bar>
          \<le> (real_of_int (pin_count_y pc104) * pin_pitch pc104 + 3) / 2
        \<and> 0 \<le> z \<and> z \<le> 20)
   \<and> last (operations (make_pc104_standoff pc104 part_spec)) = (False, header_cutter pc104)
   \<and> z_range (header_cutter pc104) = Some (0, 20)
   \<and> (\<bar>x - fst (stack_headers_center_coord PC104Spec_default)\<bar>
          \<le> (real_of_int (pin_count_x PC104Spec_default) * pin_pitch PC104Spec_default + 8) / 2
        \<and> \<bar>y - snd (stack_headers_center_coord PC104Spec_default)\<bar>
          \<le> (real_of_int (pin_count_y PC104Spec_default) * pin_pitch PC104Spec_default + 3) / 2
        \<longrightarrow> \<not> inside default_part (x, y, z))"
proof -
  have op: "last (operations (make_pc104_standoff pc104 part_spec)) = (False, header_cutter pc104)"
    by (simp add: make_pc104_standoff_unfold)
  have zr: "z_range (header_cutter pc104) = Some (0, 20)"
    by (simp add: z_range_def header_cutter_def CCM_def shape_lo_def shape_hi_def)
  have clear: "\<not> inside default_part (x, y, z)"
    if "\<bar>x - fst (stack_headers_center_coord PC104Spec_default)\<bar>
          \<le> (real_of_int (pin_count_x PC104Spec_default) * pin_pitch PC104Spec_default + 8) / 2
        \<and> \<bar>y - snd (stack_headers_center_coord PC104Spec_default)\<bar>
          \<le> (real_of_int (pin_count_y PC104Spec_default) * pin_pitch PC104Spec_default + 3) / 2"
  proof -
    have "\<bar>x - 3.81\<bar> \<le> 9.08" and "\<bar>y + 31.75\<bar> \<le> 34.52"
      using that by (simp_all add: PC104Spec_default_def stack_headers_center_coord_def)
    then show ?thesis by (rule header_slot_clear)
  qed
  show ?thesis
    using op zr clear inside_header_cutter [of pc104 x y z] by blast
qed

theorem header_cutter_extent_default:
  "inside (base_plate PC104Spec_default StandSpec_default) (3.81, -31.75, 1)
   \<and> inside (header_cutter PC104Spec_default) (3.81, -31.75, 1)
   \<and> inside (header_cutter PC104Spec_default) (12.89, 2.77, 20)
   \<and> \<not> inside default_part (3.81, -31.75, 1)"
  using header_cutter_extent [of PC104Spec_default "3.81" "-31.75" 1 StandSpec_default]
    header_cutter_extent [of PC104Spec_default "12.89" "2.77" 20 StandSpec_default]
  by (simp add: inside_base_plate PC104Spec_default_def StandSpec_default_def
        stack_headers_center_coord_def del: inside.simps)

subsection \<open>Bounding box\<close>

text \<open>
  C7. For the default specs the solid returned by \<open>make_pc104_standoff\<close> lies within the
  footprint of the plate in x and y: every point of every part that is added (the
  plate and the four standoff cylinders), and so every point of the solid, lies in the
  rectangle of size \<open>box_width_x\<close> by \<open>box_height_y\<close> anchored at \<open>box_top_left_coord\<close>, and
  has \<open>z\<close> between 0 and \<open>standoff_total_height = 9.5\<close>, which is at most
  \<open>base_plate_thickness\<close> plus the standoff height.
\<close>

theorem default_part_in_footprint:
  assumes "inside default_part (x, y, z) \<or> (\<exists>b \<in> set (added default_part). inside b (x, y, z))"
  shows "in_footprint PC104Spec_default StandSpec_default (x, y, z)
         \<and> - 4.4 \<le> x \<and> x \<le> 90.14 \<and> - 76.47 \<le> y \<and> y \<le> 11.63 \<and> 0 \<le> z \<and> z \<le> 9.5
         \<and> standoff_total_height StandSpec_default = 9.5
         \<and> z \<le> base_plate_thickness StandSpec_default + standoff_total_height StandSpec_default"
proof -
  from assms inside_within_added [of PC104Spec_default StandSpec_default "(x, y, z)"]
  obtain b where "b \<in> set (added default_part)" and "inside b (x, y, z)"
    by blast
  then have "in_footprint PC104Spec_default StandSpec_default (x, y, z)"
    by (rule added_default_in_footprint)
  then show ?thesis
    by (simp add: in_footprint_def between_def PC104Spec_default_def StandSpec_default_def)
qed

theorem default_part_in_footprint_top:
  "inside default_part (88.23, 7.62, 9.5)
   \<and> in_footprint PC104Spec_default StandSpec_default (88.23, 7.62, 9.5)
   \<and> inside default_part (40, 0, 1)
   \<and> in_footprint PC104Spec_default StandSpec_default (40, 0, 1)"
  using default_part_in_footprint [of "88.23" "7.62" "9.5"] default_part_in_footprint [of 40 0 1]
    top_point plate_point
  by simp

subsection \<open>Construction of the records\<close>

text \<open>
  C8. Constructing a PC104Spec or a StandSpec never fails, whatever the field values:
  \<open>__post_init__\<close> checks nothing, so a record whose dimensions are inconsistent (an
  inner diameter of the standoff above both outer diameters, a negative thickness) is
  accepted as it is; consistency is left to the caller.
\<close>

theorem construction_never_fails:
  "new_PC104Spec pin0 nx ny pitch w h corner =
     Inr \<lparr> top_left_pin_coord = pin0, pin_count_x = nx, pin_count_y = ny,
           pin_pitch = pitch, box_width_x = w, box_height_y = h,
           box_top_left_coord = corner \<rparr>
   \<and> new_StandSpec t cr ht d_in d_east d_west =
     Inr \<lparr> base_plate_thickness = t, plate_plate_corner_radius = cr,
           standoff_total_height = ht, standoff_id = d_in,
           standoff_od_east = d_east, standoff_od_west = d_west \<rparr>
   \<and> PC104Spec_post_init pc104 = Inr ()
   \<and> StandSpec_post_init part_spec = Inr ()"
  by (simp add: new_PC104Spec_def new_StandSpec_def PC104Spec_post_init_def
        StandSpec_post_init_def)

theorem construction_never_fails_inconsistent:
  "new_StandSpec (- 2) 3 9.5 10 6.5 5.8 =
     Inr \<lparr> base_plate_thickness = - 2, plate_plate_corner_radius = 3,
           standoff_total_height = 9.5, standoff_id = 10,
           standoff_od_east = 6.5, standoff_od_west = 5.8 \<rparr>
   \<and> new_PC104Spec (0, 0) (- 4) 0 (- 2.54) 0 (- 1) (0, 0) =
     Inr \<lparr> top_left_pin_coord = (0, 0), pin_count_x = - 4, pin_count_y = 0,
           pin_pitch = - 2.54, box_width_x = 0, box_height_y = - 1,
           box_top_left_coord = (0, 0) \<rparr>
   \<and> new_PC104Spec (0, 0) 4 26 2.54 94.54 88.1 (-4.4, 11.63) = Inr PC104Spec_default
   \<and> new_StandSpec 2.0 3.0 9.5 3.5 6.5 5.8 = Inr StandSpec_default"
  using construction_never_fails [of "(0, 0)" "- 4" 0 "- 2.54" 0 "- 1" "(0, 0)" "- 2" 3 "9.5" 10 "6.5" "5.8"]
    construction_never_fails [of "(0, 0)" 4 26 "2.54" "94.54" "88.1" "(-4.4, 11.63)" "2.0" "3.0" "9.5" "3.5" "6.5" "5.8"]
  by (simp add: PC104Spec_default_def StandSpec_default_def)

subsection \<open>The driver\<close>

lemma export_parts_manifold_independent:
  "filter is_export (fst (export_parts is_expected_type is_manifold parts))
     = filter is_export (fst (export_parts is_expected_type is_manifold' parts))
   \<and> snd (export_parts is_expected_type is_manifold parts)
     = snd (export_parts is_expected_type is_manifold' parts)"
  by (induction parts) (auto simp: is_export_def split: prod.splits)

text \<open>
  C9. In the driver a part that fails the manifold test only adds a warning to the log:
  the STL and STEP exports that follow are the same calls, in the same order, whatever
  the test answers, and so is the outcome of the run. For the one part of the driver
  (when its assertion holds) the run logs the warning exactly when the test fails, and
  then exports both files.
\<close>

theorem exports_do_not_depend_on_manifold:
  "filter is_export (fst (export_parts is_expected_type is_manifold parts))
     = filter is_export (fst (export_parts is_expected_type is_manifold' parts))
   \<and> snd (export_parts is_expected_type is_manifold parts)
     = snd (export_parts is_expected_type is_manifold' parts)
   \<and> filter is_export (fst (driver is_expected_type is_manifold))
     = filter is_export (fst (driver is_expected_type is_manifold'))
   \<and> (is_expected_type default_part \<longrightarrow>
        driver is_expected_type is_manifold =
          ([LogInfo ''Showing CAD model(s)'', Mkdir ''build'']
           @ (if is_manifold default_part then [] else [LogWarning ''pc104_standoff''])
           @ [ExportStl ''pc104_standoff'' ''build/pc104_standoff.stl'',
              ExportStep ''pc104_standoff'' ''build/pc104_standoff.step''],
           None))"
proof -
  note ind = export_parts_manifold_independent [of is_expected_type is_manifold _ is_manifold']
  have drv: "filter is_export (fst (driver is_expected_type is_manifold))
     = filter is_export (fst (driver is_expected_type is_manifold'))"
    using ind [of "[(''pc104_standoff'', default_part)]"]
    by (simp add: driver_def is_export_def split: prod.splits)
  have run: "is_expected_type default_part \<longrightarrow>
        driver is_expected_type is_manifold =
          ([LogInfo ''Showing CAD model(s)'', Mkdir ''build'']
           @ (if is_manifold default_part then [] else [LogWarning ''pc104_standoff''])
           @ [ExportStl ''pc104_standoff'' ''build/pc104_standoff.stl'',
              ExportStep ''pc104_standoff'' ''build/pc104_standoff.step''],
           None)"
    by (simp add: driver_def export_folder_def)
  show ?thesis using ind drv run by blast
qed

theorem exports_do_not_depend_on_manifold_run:
  "driver (\<lambda>p. True) (\<lambda>p. False) =
     ([LogInfo ''Showing CAD model(s)'', Mkdir ''build'', LogWarning ''pc104_standoff'',
       ExportStl ''pc104_standoff'' ''build/pc104_standoff.stl'',
       ExportStep ''pc104_standoff'' ''build/pc104_standoff.step''], None)
   \<and> driver (\<lambda>p. True) (\<lambda>p. True) =
     ([LogInfo ''Showing CAD model(s)'', Mkdir ''build'',
       ExportStl ''pc104_standoff'' ''build/pc104_standoff.stl'',
       ExportStep ''pc104_standoff'' ''build/pc104_standoff.step''], None)
   \<and> filter is_export (fst (driver (\<lambda>p. True) (\<lambda>p. False)))
     = filter is_export (fst (driver (\<lambda>p. True) (\<lambda>p. True)))"
  using exports_do_not_depend_on_manifold [of "\<lambda>p. True" "\<lambda>p. False" "[]" "\<lambda>p. True"]
    exports_do_not_depend_on_manifold [of "\<lambda>p. True" "\<lambda>p. True" "[]" "\<lambda>p. True"]
  by (simp add: is_export_def)

end
